theory Spec2Isabelle
  imports Complex_Main
begin

section \<open>Numbers, vectors, quaternions\<close>

text \<open>
  The flight model of \<^verbatim>\<open>arcadeFlightModel.ts\<close> computes on JavaScript numbers. In the first
  two sections they are modelled as real numbers: a theorem there is a statement about the
  arithmetic the code writes down, carried out exactly, without rounding, \<^verbatim>\<open>NaN\<close> or
  infinities. The statements of \<^verbatim>\<open>step\<close> whose effect depends on how \<^verbatim>\<open>NaN\<close> and the
  infinities compare are embedded a second time, on JavaScript numbers, in the section after
  these. The vector, quaternion and matrix operations come from the three.js library; each
  is written here as a function from the old value of \<^verbatim>\<open>this\<close> to the new one (\<^verbatim>\<open>copy\<close> is
  the identity on values and is left out).
\<close>

record vec3 =
  v_x :: real
  v_y :: real
  v_z :: real

record quat =
  q_x :: real
  q_y :: real
  q_z :: real
  q_w :: real

text \<open>The sixteen elements of a \<^verbatim>\<open>Matrix4\<close>, column-major as in \<^verbatim>\<open>Matrix4.elements\<close>.\<close>

record mat4 =
  te0 :: real   te1 :: real   te2 :: real   te3 :: real
  te4 :: real   te5 :: real   te6 :: real   te7 :: real
  te8 :: real   te9 :: real   te10 :: real  te11 :: real
  te12 :: real  te13 :: real  te14 :: real  te15 :: real

definition vec :: "real \<Rightarrow> real \<Rightarrow> real \<Rightarrow> vec3" where
  "vec a b c = \<lparr>v_x = a, v_y = b, v_z = c\<rparr>"

definition qt :: "real \<Rightarrow> real \<Rightarrow> real \<Rightarrow> real \<Rightarrow> quat" where
  "qt a b c d = \<lparr>q_x = a, q_y = b, q_z = c, q_w = d\<rparr>"

subsection \<open>Vector3\<close>

definition v3_setY :: "vec3 \<Rightarrow> real \<Rightarrow> vec3" where
  "v3_setY v b = vec (v_x v) b (v_z v)"

definition v3_add :: "vec3 \<Rightarrow> vec3 \<Rightarrow> vec3" where
  "v3_add a b = vec (v_x a + v_x b) (v_y a + v_y b) (v_z a + v_z b)"

definition v3_sub :: "vec3 \<Rightarrow> vec3 \<Rightarrow> vec3" where
  "v3_sub a b = vec (v_x a - v_x b) (v_y a - v_y b) (v_z a - v_z b)"

definition v3_multiplyScalar :: "vec3 \<Rightarrow> real \<Rightarrow> vec3" where
  "v3_multiplyScalar v k = vec (v_x v * k) (v_y v * k) (v_z v * k)"

definition v3_divideScalar :: "vec3 \<Rightarrow> real \<Rightarrow> vec3" where
  "v3_divideScalar v k = v3_multiplyScalar v (1 / k)"

definition v3_addScaledVector :: "vec3 \<Rightarrow> vec3 \<Rightarrow> real \<Rightarrow> vec3" where
  "v3_addScaledVector a b k = vec (v_x a + v_x b * k) (v_y a + v_y b * k) (v_z a + v_z b * k)"

definition v3_negate :: "vec3 \<Rightarrow> vec3" where
  "v3_negate v = vec (- v_x v) (- v_y v) (- v_z v)"

definition v3_dot :: "vec3 \<Rightarrow> vec3 \<Rightarrow> real" where
  "v3_dot a b = v_x a * v_x b + v_y a * v_y b + v_z a * v_z b"

definition v3_cross :: "vec3 \<Rightarrow> vec3 \<Rightarrow> vec3" where
  "v3_cross a b =
     vec (v_y a * v_z b - v_z a * v_y b)
         (v_z a * v_x b - v_x a * v_z b)
         (v_x a * v_y b - v_y a * v_x b)"

definition v3_lengthSq :: "vec3 \<Rightarrow> real" where
  "v3_lengthSq v = v_x v * v_x v + v_y v * v_y v + v_z v * v_z v"

definition v3_length :: "vec3 \<Rightarrow> real" where
  "v3_length v = sqrt (v_x v * v_x v + v_y v * v_y v + v_z v * v_z v)"

text \<open>\<^verbatim>\<open>normalize\<close> is \<^verbatim>\<open>divideScalar(this.length() || 1)\<close>: the zero vector stays zero.\<close>

definition v3_normalize :: "vec3 \<Rightarrow> vec3" where
  "v3_normalize v = v3_divideScalar v (if v3_length v = 0 then 1 else v3_length v)"

definition v3_projectOnVector :: "vec3 \<Rightarrow> vec3 \<Rightarrow> vec3" where
  "v3_projectOnVector this v =
     (let denominator = v3_lengthSq v in
      if denominator = 0 then vec 0 0 0
      else v3_multiplyScalar v (v3_dot v this / denominator))"

definition v3_projectOnPlane :: "vec3 \<Rightarrow> vec3 \<Rightarrow> vec3" where
  "v3_projectOnPlane this planeNormal = v3_sub this (v3_projectOnVector this planeNormal)"

text \<open>\<^verbatim>\<open>MathUtils.clamp\<close> of three.js, used by the two \<^verbatim>\<open>angleTo\<close> methods.\<close>

definition MathUtils_clamp :: "real \<Rightarrow> real \<Rightarrow> real \<Rightarrow> real" where
  "MathUtils_clamp value lo hi = max lo (min hi value)"

definition v3_angleTo :: "vec3 \<Rightarrow> vec3 \<Rightarrow> real" where
  "v3_angleTo this v =
     (let denominator = sqrt (v3_lengthSq this * v3_lengthSq v) in
      if denominator = 0 then pi / 2
      else arccos (MathUtils_clamp (v3_dot this v / denominator) (- 1) 1))"

definition v3_applyQuaternion :: "vec3 \<Rightarrow> quat \<Rightarrow> vec3" where
  "v3_applyQuaternion v q =
     (let x = v_x v; y = v_y v; z = v_z v;
          qx = q_x q; qy = q_y q; qz = q_z q; qw = q_w q;
          ix = qw * x + qy * z - qz * y;
          iy = qw * y + qz * x - qx * z;
          iz = qw * z + qx * y - qy * x;
          iw = - qx * x - qy * y - qz * z
      in vec (ix * qw + iw * - qx + iy * - qz - iz * - qy)
             (iy * qw + iw * - qy + iz * - qx - ix * - qz)
             (iz * qw + iw * - qz + ix * - qy - iy * - qx))"

subsection \<open>Quaternion\<close>

definition q_setFromAxisAngle :: "vec3 \<Rightarrow> real \<Rightarrow> quat" where
  "q_setFromAxisAngle axis angle =
     (let halfAngle = angle / 2; s = sin halfAngle
      in qt (v_x axis * s) (v_y axis * s) (v_z axis * s) (cos halfAngle))"

definition q_multiplyQuaternions :: "quat \<Rightarrow> quat \<Rightarrow> quat" where
  "q_multiplyQuaternions a b =
     (let qax = q_x a; qay = q_y a; qaz = q_z a; qaw = q_w a;
          qbx = q_x b; qby = q_y b; qbz = q_z b; qbw = q_w b
      in qt (qax * qbw + qaw * qbx + qay * qbz - qaz * qby)
            (qay * qbw + qaw * qby + qaz * qbx - qax * qbz)
            (qaz * qbw + qaw * qbz + qax * qby - qay * qbx)
            (qaw * qbw - qax * qbx - qay * qby - qaz * qbz))"

definition q_multiply :: "quat \<Rightarrow> quat \<Rightarrow> quat" where
  "q_multiply this q = q_multiplyQuaternions this q"

definition q_premultiply :: "quat \<Rightarrow> quat \<Rightarrow> quat" where
  "q_premultiply this q = q_multiplyQuaternions q this"

definition q_dot :: "quat \<Rightarrow> quat \<Rightarrow> real" where
  "q_dot a b = q_x a * q_x b + q_y a * q_y b + q_z a * q_z b + q_w a * q_w b"

definition q_length :: "quat \<Rightarrow> real" where
  "q_length q = sqrt (q_x q * q_x q + q_y q * q_y q + q_z q * q_z q + q_w q * q_w q)"

definition q_normalize :: "quat \<Rightarrow> quat" where
  "q_normalize q =
     (let l = q_length q in
      if l = 0 then qt 0 0 0 1
      else qt (q_x q * (1 / l)) (q_y q * (1 / l)) (q_z q * (1 / l)) (q_w q * (1 / l)))"

definition q_angleTo :: "quat \<Rightarrow> quat \<Rightarrow> real" where
  "q_angleTo this q = 2 * arccos \<bar>MathUtils_clamp (q_dot this q) (- 1) 1\<bar>"

definition Math_atan2 :: "real \<Rightarrow> real \<Rightarrow> real" where
  "Math_atan2 y x =
     (if x > 0 then arctan (y / x)
      else if x < 0 then (if y \<ge> 0 then arctan (y / x) + pi else arctan (y / x) - pi)
      else if y > 0 then pi / 2
      else if y < 0 then - pi / 2
      else 0)"

definition Number_EPSILON :: real where
  "Number_EPSILON = 1 / 2 ^ 52"

definition q_slerp :: "quat \<Rightarrow> quat \<Rightarrow> real \<Rightarrow> quat" where
  "q_slerp this qb t =
     (if t = 0 then this
      else if t = 1 then qb
      else
        let x = q_x this; y = q_y this; z = q_z this; w = q_w this;
            c0 = w * q_w qb + x * q_x qb + y * q_y qb + z * q_z qb;
            b = (if c0 < 0 then qt (- q_x qb) (- q_y qb) (- q_z qb) (- q_w qb) else qb);
            cosHalfTheta = (if c0 < 0 then - c0 else c0)
        in if cosHalfTheta \<ge> 1 then this
           else
             let sqrSinHalfTheta = 1 - cosHalfTheta * cosHalfTheta
             in if sqrSinHalfTheta \<le> Number_EPSILON then
                  (let s = 1 - t
                   in q_normalize (qt (s * x + t * q_x b) (s * y + t * q_y b)
                                      (s * z + t * q_z b) (s * w + t * q_w b)))
                else
                  let sinHalfTheta = sqrt sqrSinHalfTheta;
                      halfTheta = Math_atan2 sinHalfTheta cosHalfTheta;
                      ratioA = sin ((1 - t) * halfTheta) / sinHalfTheta;
                      ratioB = sin (t * halfTheta) / sinHalfTheta
                  in qt (x * ratioA + q_x b * ratioB) (y * ratioA + q_y b * ratioB)
                        (z * ratioA + q_z b * ratioB) (w * ratioA + q_w b * ratioB))"

definition q_rotateTowards :: "quat \<Rightarrow> quat \<Rightarrow> real \<Rightarrow> quat" where
  "q_rotateTowards this q stp =
     (let angle = q_angleTo this q in
      if angle = 0 then this
      else q_slerp this q (min 1 (stp / angle)))"

definition q_setFromRotationMatrix :: "mat4 \<Rightarrow> quat" where
  "q_setFromRotationMatrix m =
     (let m11 = te0 m; m12 = te4 m; m13 = te8 m;
          m21 = te1 m; m22 = te5 m; m23 = te9 m;
          m31 = te2 m; m32 = te6 m; m33 = te10 m;
          trace = m11 + m22 + m33
      in if trace > 0 then
           (let s = 0.5 / sqrt (trace + 1)
            in qt ((m32 - m23) * s) ((m13 - m31) * s) ((m21 - m12) * s) (0.25 / s))
         else if m11 > m22 \<and> m11 > m33 then
           (let s = 2 * sqrt (1 + m11 - m22 - m33)
            in qt (0.25 * s) ((m12 + m21) / s) ((m13 + m31) / s) ((m32 - m23) / s))
         else if m22 > m33 then
           (let s = 2 * sqrt (1 + m22 - m11 - m33)
            in qt ((m12 + m21) / s) (0.25 * s) ((m23 + m32) / s) ((m13 - m31) / s))
         else
           (let s = 2 * sqrt (1 + m33 - m11 - m22)
            in qt ((m13 + m31) / s) ((m23 + m32) / s) (0.25 * s) ((m21 - m12) / s)))"

subsection \<open>Matrix4\<close>

definition m4_identity :: mat4 where
  "m4_identity =
     \<lparr>te0 = 1, te1 = 0, te2 = 0, te3 = 0, te4 = 0, te5 = 1, te6 = 0, te7 = 0,
      te8 = 0, te9 = 0, te10 = 1, te11 = 0, te12 = 0, te13 = 0, te14 = 0, te15 = 1\<rparr>"

definition m4_zero :: mat4 where
  "m4_zero =
     \<lparr>te0 = 0, te1 = 0, te2 = 0, te3 = 0, te4 = 0, te5 = 0, te6 = 0, te7 = 0,
      te8 = 0, te9 = 0, te10 = 0, te11 = 0, te12 = 0, te13 = 0, te14 = 0, te15 = 0\<rparr>"

text \<open>
  \<^verbatim>\<open>Matrix4.lookAt(eye, target, up)\<close> writes the nine elements of the rotation part and
  leaves the other seven as they were.
\<close>

definition m4_lookAt :: "mat4 \<Rightarrow> vec3 \<Rightarrow> vec3 \<Rightarrow> vec3 \<Rightarrow> mat4" where
  "m4_lookAt this eye target upv =
     (let z0 = v3_sub eye target;
          z1 = v3_normalize (if v3_lengthSq z0 = 0 then z0\<lparr>v_z := 1\<rparr> else z0);
          x1 = v3_cross upv z1;
          z2 = (if v3_lengthSq x1 = 0
                then v3_normalize (if \<bar>v_z upv\<bar> = 1 then z1\<lparr>v_x := v_x z1 + 0.0001\<rparr>
                                   else z1\<lparr>v_z := v_z z1 + 0.0001\<rparr>)
                else z1);
          x2 = v3_normalize (if v3_lengthSq x1 = 0 then v3_cross upv z2 else x1);
          y2 = v3_cross z2 x2
      in this\<lparr>te0 := v_x x2, te4 := v_x y2, te8 := v_x z2,
               te1 := v_y x2, te5 := v_y y2, te9 := v_y z2,
               te2 := v_z x2, te6 := v_z y2, te10 := v_z z2\<rparr>)"

definition m4_invert :: "mat4 \<Rightarrow> mat4" where
  "m4_invert m =
     (let n11 = te0 m; n21 = te1 m; n31 = te2 m; n41 = te3 m;
          n12 = te4 m; n22 = te5 m; n32 = te6 m; n42 = te7 m;
          n13 = te8 m; n23 = te9 m; n33 = te10 m; n43 = te11 m;
          n14 = te12 m; n24 = te13 m; n34 = te14 m; n44 = te15 m;
          t11 = n23 * n34 * n42 - n24 * n33 * n42 + n24 * n32 * n43
              - n22 * n34 * n43 - n23 * n32 * n44 + n22 * n33 * n44;
          t12 = n14 * n33 * n42 - n13 * n34 * n42 - n14 * n32 * n43
              + n12 * n34 * n43 + n13 * n32 * n44 - n12 * n33 * n44;
          t13 = n13 * n24 * n42 - n14 * n23 * n42 + n14 * n22 * n43
              - n12 * n24 * n43 - n13 * n22 * n44 + n12 * n23 * n44;
          t14 = n14 * n23 * n32 - n13 * n24 * n32 - n14 * n22 * n33
              + n12 * n24 * n33 + n13 * n22 * n34 - n12 * n23 * n34;
          det = n11 * t11 + n21 * t12 + n31 * t13 + n41 * t14
      in if det = 0 then m4_zero
         else
           let detInv = 1 / det in
           \<lparr>te0 = t11 * detInv,
            te1 = (n24 * n33 * n41 - n23 * n34 * n41 - n24 * n31 * n43
                 + n21 * n34 * n43 + n23 * n31 * n44 - n21 * n33 * n44) * detInv,
            te2 = (n22 * n34 * n41 - n24 * n32 * n41 + n24 * n31 * n42
                 - n21 * n34 * n42 - n22 * n31 * n44 + n21 * n32 * n44) * detInv,
            te3 = (n23 * n32 * n41 - n22 * n33 * n41 - n23 * n31 * n42
                 + n21 * n33 * n42 + n22 * n31 * n43 - n21 * n32 * n43) * detInv,
            te4 = t12 * detInv,
            te5 = (n13 * n34 * n41 - n14 * n33 * n41 + n14 * n31 * n43
                 - n11 * n34 * n43 - n13 * n31 * n44 + n11 * n33 * n44) * detInv,
            te6 = (n14 * n32 * n41 - n12 * n34 * n41 - n14 * n31 * n42
                 + n11 * n34 * n42 + n12 * n31 * n44 - n11 * n32 * n44) * detInv,
            te7 = (n12 * n33 * n41 - n13 * n32 * n41 + n13 * n31 * n42
                 - n11 * n33 * n42 - n12 * n31 * n43 + n11 * n32 * n43) * detInv,
            te8 = t13 * detInv,
            te9 = (n14 * n23 * n41 - n13 * n24 * n41 - n14 * n21 * n43
                 + n11 * n24 * n43 + n13 * n21 * n44 - n11 * n23 * n44) * detInv,
            te10 = (n12 * n24 * n41 - n14 * n22 * n41 + n14 * n21 * n42
                  - n11 * n24 * n42 - n12 * n21 * n44 + n11 * n22 * n44) * detInv,
            te11 = (n13 * n22 * n41 - n12 * n23 * n41 - n13 * n21 * n42
                  + n11 * n23 * n42 + n12 * n21 * n43 - n11 * n22 * n43) * detInv,
            te12 = t14 * detInv,
            te13 = (n13 * n24 * n31 - n14 * n23 * n31 + n14 * n21 * n33
                  - n11 * n24 * n33 - n13 * n21 * n34 + n11 * n23 * n34) * detInv,
            te14 = (n14 * n22 * n31 - n12 * n24 * n31 - n14 * n21 * n32
                  + n11 * n24 * n32 + n12 * n21 * n34 - n11 * n22 * n34) * detInv,
            te15 = (n12 * n23 * n31 - n13 * n22 * n31 + n13 * n21 * n32
                  - n11 * n23 * n32 - n12 * n21 * n33 + n11 * n22 * n33) * detInv\<rparr>)"

text \<open>
  \<^verbatim>\<open>Matrix4.compose(position, quaternion, scale)\<close> at scale \<open>(1, 1, 1)\<close>: the world matrix of
  an object that has no parent and has not been scaled.
\<close>

definition m4_compose :: "vec3 \<Rightarrow> quat \<Rightarrow> mat4" where
  "m4_compose p q =
     (let x = q_x q; y = q_y q; z = q_z q; w = q_w q;
          x2 = x + x; y2 = y + y; z2 = z + z;
          xx = x * x2; xy = x * y2; xz = x * z2;
          yy = y * y2; yz = y * z2; zz = z * z2;
          wx = w * x2; wy = w * y2; wz = w * z2
      in \<lparr>te0 = 1 - (yy + zz), te1 = xy + wz, te2 = xz - wy, te3 = 0,
          te4 = xy - wz, te5 = 1 - (xx + zz), te6 = yz + wx, te7 = 0,
          te8 = xz + wy, te9 = yz - wx, te10 = 1 - (xx + yy), te11 = 0,
          te12 = v_x p, te13 = v_y p, te14 = v_z p, te15 = 1\<rparr>)"

subsection \<open>Object3D\<close>

text \<open>
  Of the aircraft's \<^verbatim>\<open>Object3D\<close> the flight model reads and writes the orientation and
  the position. The object is a plain one (neither camera nor light), without parent,
  unscaled, with the default up vector \<open>(0, 1, 0)\<close>.
\<close>

record object3d =
  quaternion :: quat
  position :: vec3

definition o3_rotateOnAxis :: "object3d \<Rightarrow> vec3 \<Rightarrow> real \<Rightarrow> object3d" where
  "o3_rotateOnAxis ob axis angle =
     ob\<lparr>quaternion := q_multiply (quaternion ob) (q_setFromAxisAngle axis angle)\<rparr>"

definition o3_rotateOnWorldAxis :: "object3d \<Rightarrow> vec3 \<Rightarrow> real \<Rightarrow> object3d" where
  "o3_rotateOnWorldAxis ob axis angle =
     ob\<lparr>quaternion := q_premultiply (quaternion ob) (q_setFromAxisAngle axis angle)\<rparr>"

definition o3_rotateX :: "object3d \<Rightarrow> real \<Rightarrow> object3d" where
  "o3_rotateX ob angle = o3_rotateOnAxis ob (vec 1 0 0) angle"

definition o3_rotateY :: "object3d \<Rightarrow> real \<Rightarrow> object3d" where
  "o3_rotateY ob angle = o3_rotateOnAxis ob (vec 0 1 0) angle"

definition o3_rotateZ :: "object3d \<Rightarrow> real \<Rightarrow> object3d" where
  "o3_rotateZ ob angle = o3_rotateOnAxis ob (vec 0 0 1) angle"

definition o3_matrixWorld :: "object3d \<Rightarrow> mat4" where
  "o3_matrixWorld ob = m4_compose (position ob) (quaternion ob)"

definition o3_getWorldDirection :: "object3d \<Rightarrow> vec3" where
  "o3_getWorldDirection ob =
     (let e = o3_matrixWorld ob in v3_normalize (vec (te8 e) (te9 e) (te10 e)))"

definition o3_lookAt :: "object3d \<Rightarrow> vec3 \<Rightarrow> object3d" where
  "o3_lookAt ob target =
     (let e = o3_matrixWorld ob;
          pos = vec (te12 e) (te13 e) (te14 e);
          m1 = m4_lookAt m4_identity target pos (vec 0 1 0)
      in ob\<lparr>quaternion := q_setFromRotationMatrix m1\<rparr>)"

section \<open>The arcade flight model\<close>

subsection \<open>Constants\<close>

definition TURNING_RATE :: real where "TURNING_RATE = pi * 1.5"
definition STALL_RATE :: real where "STALL_RATE = pi / 6"
definition INDUCED_DRAG_FACTOR :: real where "INDUCED_DRAG_FACTOR = 10.0"
definition ROLL_DRAG_FACTOR :: real where "ROLL_DRAG_FACTOR = 0.05"
definition GROUND_FRICTION_KINETIC :: real where "GROUND_FRICTION_KINETIC = 0.15"
definition GROUND_FRICTION_STATIC :: real where "GROUND_FRICTION_STATIC = 0.3"
definition MAX_THRUST :: real where "MAX_THRUST = 20"
definition DRY_MASS :: real where "DRY_MASS = 20000"
definition WING_AREA :: real where "WING_AREA = 78"
definition GROUND_AIR_DENSITY :: real where "GROUND_AIR_DENSITY = 1.225"
definition GRAVITY :: real where "GRAVITY = 9.8"
definition CD :: real where "CD = 0.15"

text \<open>
  The constants that \<^verbatim>\<open>arcadeFlightModel.ts\<close> imports from \<^verbatim>\<open>defs\<close>, \<^verbatim>\<open>scene/scene\<close> and
  \<^verbatim>\<open>utils/math\<close> are parameters of the model: their values are not in the file.
  \<open>EPSILON\<close> is the tolerance that \<^verbatim>\<open>isZero\<close> and \<^verbatim>\<open>roundToZero\<close> use when the caller gives none.
\<close>

record defs =
  PITCH_RATE :: real
  ROLL_RATE :: real
  YAW_RATE :: real
  PLANE_DISTANCE_TO_GROUND :: real
  TERRAIN_SCALE :: real
  TERRAIN_MODEL_SIZE :: real
  FORWARD :: vec3
  RIGHT :: vec3
  UP :: vec3
  ZERO :: vec3
  EPSILON :: real

subsection \<open>Helpers of \<^verbatim>\<open>utils/math\<close>\<close>

text \<open>
  The four helpers that \<^verbatim>\<open>step\<close> imports from \<^verbatim>\<open>utils/math\<close> are not among the sources.
  The spec lists them as "clamp, ease-out curve, near-zero test, round-toward-zero-with-epsilon".
\<close>

text \<open>
  Modelled from the spec: \<^verbatim>\<open>clamp(value, min, max)\<close> of \<^verbatim>\<open>utils/math\<close>, the value limited to the
  interval ("clamp stall to [-1,1]").
\<close>

definition clamp :: "real \<Rightarrow> real \<Rightarrow> real \<Rightarrow> real" where
  "clamp value lo hi = max lo (min hi value)"

text \<open>
  Modelled from the spec: \<^verbatim>\<open>easeOutCirc\<close> of \<^verbatim>\<open>utils/math\<close>, the "ease-out curve", taken to be
  the circular easing function of that name.
\<close>

definition easeOutCirc :: "real \<Rightarrow> real" where
  "easeOutCirc x = sqrt (1 - (x - 1) ^ 2)"

text \<open>
  Modelled from the spec: \<^verbatim>\<open>isZero\<close> of \<^verbatim>\<open>utils/math\<close>, the "near-zero test", with the tolerance
  as first argument; \<^verbatim>\<open>step\<close> never passes one, so every call below uses \<open>EPSILON\<close>.
\<close>

definition isZero :: "real \<Rightarrow> real \<Rightarrow> bool" where
  "isZero eps n = (\<bar>n\<bar> < eps)"

text \<open>
  Modelled from the spec: \<^verbatim>\<open>roundToZero\<close> of \<^verbatim>\<open>utils/math\<close>, "snapping near-zero vector
  components to exactly zero", with the tolerance as first argument. \<^verbatim>\<open>step\<close> calls it on
  \<^verbatim>\<open>this.thrust\<close> and \<^verbatim>\<open>this.drag\<close> for its effect alone and uses its result as the
  acceleration, so it changes its argument in place and returns it; the model returns the
  new value and the callers store it.
\<close>

definition roundToZero :: "real \<Rightarrow> vec3 \<Rightarrow> vec3" where
  "roundToZero eps v =
     vec (if isZero eps (v_x v) then 0 else v_x v)
         (if isZero eps (v_y v) then 0 else v_y v)
         (if isZero eps (v_z v) then 0 else v_z v)"

text \<open>\<^verbatim>\<open>Math.pow\<close> on the arguments the drag formula gives it: a base that is not negative.\<close>

definition Math_pow :: "real \<Rightarrow> real \<Rightarrow> real" where
  "Math_pow b e = (if e = 0 then 1 else b powr e)"

subsection \<open>State\<close>

text \<open>
  The fields of \<^verbatim>\<open>FlightModel\<close> and \<^verbatim>\<open>ArcadeFlightModel\<close> that outlive a call of \<^verbatim>\<open>step\<close>.
  The scratch vectors and quaternions of the class are overwritten before they are read
  in every call, so they are local values here; the scratch matrix \<^verbatim>\<open>_m\<close> is only partly
  overwritten by \<^verbatim>\<open>lookAt\<close> and is kept.
\<close>

record flightModel =
  obj :: object3d
  velocity :: vec3
  roll :: real
  pitch :: real
  yaw :: real
  throttle :: real
  landed :: bool
  stall :: real
  m_scratch :: mat4

text \<open>The vectors that \<^verbatim>\<open>step\<close> computes first and reads for the rest of the call.\<close>

record basis =
  forward :: vec3
  up :: vec3
  right :: vec3
  prjForward :: vec3
  velocityUnit :: vec3

definition tickBasis :: "defs \<Rightarrow> flightModel \<Rightarrow> basis" where
  "tickBasis c s =
     (let fwd = v3_applyQuaternion (FORWARD c) (quaternion (obj s)) in
      \<lparr>forward = fwd,
       up = v3_applyQuaternion (UP c) (quaternion (obj s)),
       right = v3_applyQuaternion (RIGHT c) (quaternion (obj s)),
       prjForward = v3_setY fwd 0,
       velocityUnit = v3_normalize (velocity s)\<rparr>)"

definition airDensityAt :: "flightModel \<Rightarrow> real" where
  "airDensityAt s = GROUND_AIR_DENSITY * exp (- v_y (position (obj s)) / 8000)"

definition angleOfAttack :: "basis \<Rightarrow> real" where
  "angleOfAttack b =
     (let rightPrjVelocity = v3_projectOnPlane (velocityUnit b) (right b);
          aoaAngle = v3_angleTo rightPrjVelocity (forward b);
          aoaSign = (if v3_dot (v3_cross rightPrjVelocity (forward b)) (right b) > 0
                     then - 1 else 1)
      in aoaSign * aoaAngle)"

subsection \<open>Rotation controls\<close>

definition rollControl :: "defs \<Rightarrow> real \<Rightarrow> flightModel \<Rightarrow> flightModel" where
  "rollControl c delta s =
     (if \<not> isZero (EPSILON c) (roll s) \<and> \<not> landed s
      then s\<lparr>obj := o3_rotateZ (obj s) (roll s * ROLL_RATE c * delta)\<rparr>
      else s)"

definition pitchControl :: "defs \<Rightarrow> real \<Rightarrow> basis \<Rightarrow> flightModel \<Rightarrow> flightModel" where
  "pitchControl c delta b s =
     (if \<not> isZero (EPSILON c) (pitch s)
         \<and> \<not> (landed s \<and> pitch s < 0)
         \<and> (stall s < 0
            \<or> (pitch s < 0 \<and> v_y (up b) > 0)
            \<or> (pitch s > 0 \<and> v_y (up b) < 0))
      then s\<lparr>obj := o3_rotateX (obj s) (- pitch s * PITCH_RATE c * delta)\<rparr>
      else s)"

definition yawControl :: "defs \<Rightarrow> real \<Rightarrow> real \<Rightarrow> flightModel \<Rightarrow> flightModel" where
  "yawControl c delta speed s =
     (if \<not> isZero (EPSILON c) (yaw s) \<and> \<not> isZero (EPSILON c) speed
      then s\<lparr>obj := o3_rotateY (obj s) (- yaw s * YAW_RATE c * delta)\<rparr>
      else s)"

definition bankIndicator :: "basis \<Rightarrow> vec3" where
  "bankIndicator b = v3_setY (v3_projectOnPlane (up b) (prjForward b)) 0"

definition autoYawAngle :: "defs \<Rightarrow> real \<Rightarrow> basis \<Rightarrow> real" where
  "autoYawAngle c delta b =
     (let prjUp = bankIndicator b;
          sign = (if v_x (prjForward b) * v_z prjUp - v_z (prjForward b) * v_x prjUp > 0
                  then - 1 else 1)
      in sign * v3_length prjUp * v3_length prjUp * v3_length (prjForward b)
           * 2.0 * YAW_RATE c * delta)"

definition autoYaw :: "defs \<Rightarrow> real \<Rightarrow> basis \<Rightarrow> flightModel \<Rightarrow> flightModel" where
  "autoYaw c delta b s =
     (if - 0.99 < v_y (forward b) \<and> v_y (forward b) < 0.99
      then s\<lparr>obj := o3_rotateOnWorldAxis (obj s) (UP c) (autoYawAngle c delta b)\<rparr>
      else s)"

definition pointDownWhenStalling :: "real \<Rightarrow> basis \<Rightarrow> flightModel \<Rightarrow> flightModel" where
  "pointDownWhenStalling delta b s =
     (if stall s \<ge> 0 \<and> \<not> landed s then
        (let y = v_y (forward b) in
         if y > - 0.8 then
           (let groundRight = v3_normalize (v3_cross (forward b) (prjForward b))
            in s\<lparr>obj := o3_rotateOnWorldAxis (obj s) groundRight
                           (STALL_RATE * delta * (if y > 0 then 1 else - 1))\<rparr>)
         else s)
      else s)"

definition rotationControls :: "defs \<Rightarrow> real \<Rightarrow> basis \<Rightarrow> real \<Rightarrow> flightModel \<Rightarrow> flightModel" where
  "rotationControls c delta b speed s =
     pointDownWhenStalling delta b
       (autoYaw c delta b
         (yawControl c delta speed
           (pitchControl c delta b
             (rollControl c delta s))))"

subsection \<open>Forces\<close>

definition thrustForce :: "defs \<Rightarrow> basis \<Rightarrow> real \<Rightarrow> flightModel \<Rightarrow> vec3" where
  "thrustForce c b airDensity s =
     roundToZero (EPSILON c)
       (v3_multiplyScalar (forward b) (airDensity * MAX_THRUST * throttle s * DRY_MASS))"

definition dragForce :: "defs \<Rightarrow> basis \<Rightarrow> real \<Rightarrow> real \<Rightarrow> real \<Rightarrow> vec3" where
  "dragForce c b airDensity speed aoa =
     (let arcadeInducedDrag = v3_dot (forward b) (velocityUnit b);
          liftInducedDrag = 1 - cos (2.0 * aoa);
          rollDrag = \<bar>v_y (right b)\<bar>
      in roundToZero (EPSILON c)
           (v3_multiplyScalar (v3_negate (velocityUnit b))
              (Math_pow
                 (0.5 * (CD + liftInducedDrag) * airDensity * speed * speed * WING_AREA)
                 (1.0 + INDUCED_DRAG_FACTOR * (1.0 - arcadeInducedDrag)
                      + ROLL_DRAG_FACTOR * rollDrag))))"

definition stallIndex :: "basis \<Rightarrow> real \<Rightarrow> real \<Rightarrow> real \<Rightarrow> real" where
  "stallIndex b airDensity speed aoa =
     (let aoaLift = 0.2 * (if aoa < pi / 8.0 \<or> aoa > 7 * pi / 8.0
                           then sin (6.0 * aoa) else sin (2.0 * aoa));
          minLiftFactor = 2.0 * (0.75 * 0.75 + 0.75) * GROUND_AIR_DENSITY;
          fwdY = v_y (forward b);
          rightY = \<bar>v_y (right b)\<bar>;
          liftFactor = 2 * (speed / 256.0)
                         * ((- 0.5 * fwdY + 1.5) * (- 0.5 * rightY + 1.5) + (- 0.5 * rightY + 1.5))
                         * airDensity
      in - clamp (liftFactor / minLiftFactor + aoaLift * (1.0 - rightY) - 1.0) (- 1.0) 1.0)"

definition weightForce :: "defs \<Rightarrow> basis \<Rightarrow> real \<Rightarrow> vec3" where
  "weightForce c b speed =
     (let weightFwdFactor = - v_y (forward b);
          weightDownFactor =
            - easeOutCirc (1.0 - clamp ((speed / 256)
                                          * (1.0 - \<bar>v_y (forward b)\<bar> * (1.0 - \<bar>v_y (right b)\<bar>)))
                                       0 1)
      in v3_multiplyScalar
           (v3_addScaledVector (v3_multiplyScalar (UP c) weightDownFactor)
                               (forward b) weightFwdFactor)
           (DRY_MASS * GRAVITY))"

subsection \<open>Velocity, friction, integration\<close>

definition magicVelocityRotation ::
    "defs \<Rightarrow> real \<Rightarrow> basis \<Rightarrow> real \<Rightarrow> flightModel \<Rightarrow> flightModel" where
  "magicVelocityRotation c delta b speed s =
     (if \<not> isZero (EPSILON c) speed then
        (if landed s then s\<lparr>velocity := v3_multiplyScalar (forward b) speed\<rparr>
         else
           let alpha = v3_angleTo (velocityUnit b) (forward b);
               turningFactor = alpha * TURNING_RATE * delta;
               m1 = m4_lookAt (m_scratch s) (ZERO c) (forward b) (up b);
               q1 = q_setFromRotationMatrix m1;
               m2 = m4_lookAt m1 (ZERO c) (velocityUnit b) (up b);
               q0 = q_rotateTowards (q_setFromRotationMatrix m2) q1 turningFactor;
               m3 = m4_invert m2;
               q1' = q_setFromRotationMatrix m3;
               v = v3_applyQuaternion (v3_applyQuaternion (velocityUnit b) q1') q0
           in s\<lparr>velocity := v3_multiplyScalar v speed, m_scratch := m3\<rparr>)
      else s)"

definition frictionForce :: "defs \<Rightarrow> basis \<Rightarrow> real \<Rightarrow> vec3 \<Rightarrow> flightModel \<Rightarrow> vec3" where
  "frictionForce c b speed forces s =
     (if landed s then
        (let weightMagnitude = DRY_MASS * GRAVITY;
             prjForces = v3_setY forces 0;
             prjForcesMagnitude = v3_length prjForces;
             maxStaticFriction = GROUND_FRICTION_STATIC * weightMagnitude;
             kineticFriction = GROUND_FRICTION_KINETIC * weightMagnitude
         in roundToZero (EPSILON c)
              (if isZero (EPSILON c) speed \<and> prjForcesMagnitude < maxStaticFriction
               then v3_negate prjForces
               else v3_multiplyScalar
                      (v3_normalize (v3_negate (v3_setY (velocityUnit b) 0)))
                      kineticFriction))
      else vec 0 0 0)"

definition timestep :: "defs \<Rightarrow> real \<Rightarrow> vec3 \<Rightarrow> vec3 \<Rightarrow> flightModel \<Rightarrow> flightModel" where
  "timestep c delta forces friction s =
     (let accel = roundToZero (EPSILON c) (v3_divideScalar (v3_add forces friction) DRY_MASS);
          v = v3_addScaledVector (velocity s) accel delta
      in s\<lparr>velocity := (if landed s \<and> v_y v < 0 then v3_setY v 0 else v)\<rparr>)"

definition applyVelocity :: "defs \<Rightarrow> real \<Rightarrow> flightModel \<Rightarrow> flightModel" where
  "applyVelocity c delta s =
     (let v = roundToZero (if throttle s > 0 then 0.01 else 0.1) (velocity s);
          p = v3_addScaledVector (position (obj s)) v delta;
          s1 = s\<lparr>velocity := v, obj := (obj s)\<lparr>position := p\<rparr>\<rparr>
      in if v_y p > PLANE_DISTANCE_TO_GROUND c then s1\<lparr>landed := False\<rparr> else s1)"

text \<open>
  The heading is levelled when the aircraft touches down with its world direction (the
  object's \<open>+z\<close> axis) pointing into the ground.
\<close>

definition levelHeading :: "object3d \<Rightarrow> object3d" where
  "levelHeading ob =
     (let d = o3_getWorldDirection ob
      in if v_y d < 0.0 then o3_lookAt ob (v3_add (v3_setY d 0) (position ob)) else ob)"

definition avoidGroundCrashes :: "defs \<Rightarrow> flightModel \<Rightarrow> flightModel" where
  "avoidGroundCrashes c s =
     (if v_y (position (obj s)) < PLANE_DISTANCE_TO_GROUND c then
        (let o1 = (obj s)\<lparr>position := (position (obj s))\<lparr>v_y := PLANE_DISTANCE_TO_GROUND c\<rparr>\<rparr>
         in s\<lparr>obj := levelHeading o1, velocity := v3_setY (velocity s) 0, stall := - 1,
              landed := True\<rparr>)
      else s)"

definition terrainHalfSize :: "defs \<Rightarrow> real" where
  "terrainHalfSize c = 2.5 * TERRAIN_SCALE c * TERRAIN_MODEL_SIZE c"

definition wrapPosition :: "real \<Rightarrow> vec3 \<Rightarrow> vec3" where
  "wrapPosition h p0 =
     (let p1 = (if v_x p0 > h then p0\<lparr>v_x := - h\<rparr> else p0);
          p2 = (if v_x p1 < - h then p1\<lparr>v_x := h\<rparr> else p1);
          p3 = (if v_z p2 > h then p2\<lparr>v_z := - h\<rparr> else p2);
          p4 = (if v_z p3 < - h then p3\<lparr>v_z := h\<rparr> else p3)
      in p4)"

definition wrapAround :: "defs \<Rightarrow> flightModel \<Rightarrow> flightModel" where
  "wrapAround c s =
     s\<lparr>obj := (obj s)\<lparr>position := wrapPosition (terrainHalfSize c) (position (obj s))\<rparr>\<rparr>"

subsection \<open>One tick\<close>

text \<open>
  \<^verbatim>\<open>step\<close> in four parts, in the order of the source: \<open>accelerate\<close> runs from the first
  line through the \<^verbatim>\<open>Timestep\<close> block (rotation controls, forces, stall index, velocity);
  \<open>applyVelocity\<close> is the \<^verbatim>\<open>Apply\<close> block, which moves the position and clears \<^verbatim>\<open>landed\<close>
  above the ground clearance; \<open>avoidGroundCrashes\<close> resolves ground contact and
  \<open>wrapAround\<close> wraps the position around the terrain. \<open>integrate\<close> names the state
  after the position update.
\<close>

definition accelerate :: "defs \<Rightarrow> real \<Rightarrow> flightModel \<Rightarrow> flightModel" where
  "accelerate c delta s =
     (let b = tickBasis c s;
          airDensity = airDensityAt s;
          speed = v3_length (velocity s);
          aoa = angleOfAttack b;
          s1 = rotationControls c delta b speed s;
          thrust = thrustForce c b airDensity s1;
          drag = dragForce c b airDensity speed aoa;
          s2 = s1\<lparr>stall := stallIndex b airDensity speed aoa\<rparr>;
          weight = weightForce c b speed;
          s3 = magicVelocityRotation c delta b speed s2;
          forces = v3_add (v3_add (v3_add (vec 0 0 0) thrust) drag) weight;
          friction = frictionForce c b speed forces s3
      in timestep c delta forces friction s3)"

definition integrate :: "defs \<Rightarrow> real \<Rightarrow> flightModel \<Rightarrow> flightModel" where
  "integrate c delta s = applyVelocity c delta (accelerate c delta s)"

definition step :: "defs \<Rightarrow> real \<Rightarrow> flightModel \<Rightarrow> flightModel" where
  "step c delta s = wrapAround c (avoidGroundCrashes c (integrate c delta s))"

definition getStallStatus :: "flightModel \<Rightarrow> real" where
  "getStallStatus s = stall s"

subsection \<open>An example configuration and example states\<close>

text \<open>
  A configuration with the body axes of three.js (forward \<open>+z\<close>, up \<open>+y\<close>), unit control
  rates, a ground clearance of 2 and a terrain half size of 25000; and aircraft at rest with
  centred controls and idle throttle, in several attitudes.
\<close>

definition exampleDefs :: defs where
  "exampleDefs =
     \<lparr>PITCH_RATE = 1, ROLL_RATE = 1, YAW_RATE = 1, PLANE_DISTANCE_TO_GROUND = 2,
      TERRAIN_SCALE = 100, TERRAIN_MODEL_SIZE = 100,
      FORWARD = vec 0 0 1, RIGHT = vec 1 0 0, UP = vec 0 1 0, ZERO = vec 0 0 0,
      EPSILON = 1 / 10000\<rparr>"

definition atRest :: "quat \<Rightarrow> vec3 \<Rightarrow> bool \<Rightarrow> real \<Rightarrow> flightModel" where
  "atRest q p ld st =
     \<lparr>obj = \<lparr>quaternion = q, position = p\<rparr>, velocity = vec 0 0 0,
      roll = 0, pitch = 0, yaw = 0, throttle = 0, landed = ld, stall = st,
      m_scratch = m4_identity\<rparr>"

text \<open>Parked with the nose about 11 degrees up: forward is \<open>(0, 31920/160801, 157601/160801)\<close>.\<close>

definition parkedNoseUp :: flightModel where
  "parkedNoseUp = atRest (qt (- (40 / 401)) 0 0 (399 / 401)) (vec 0 2 0) True (- 1)"

text \<open>Landed and rolling along \<open>z\<close> at 5 m/s, with the nose about 11 degrees up.\<close>

definition rollingNoseUp :: flightModel where
  "rollingNoseUp = parkedNoseUp\<lparr>velocity := vec 0 0 5\<rparr>"

text \<open>Parked with the nose about 45 degrees up: forward is \<open>(0, 120/169, 119/169)\<close>.\<close>

definition parkedNoseHigh :: flightModel where
  "parkedNoseHigh = atRest (qt (- (5 / 13)) 0 0 (12 / 13)) (vec 0 2 0) True (- 1)"

text \<open>Parked with one wing down: up is \<open>(-24/25, 7/25, 0)\<close>.\<close>

definition parkedBanked :: flightModel where
  "parkedBanked = atRest (qt 0 0 (3 / 5) (4 / 5)) (vec 0 2 0) True (- 1)"

text \<open>Airborne and motionless at the ground clearance, level, not stalling.\<close>

definition hovering :: flightModel where
  "hovering = atRest (qt 0 0 0 1) (vec 0 2 0) False (- 1)"

text \<open>Airborne and motionless at the ground clearance, nose about 45 degrees down.\<close>

definition hoveringNoseDown :: flightModel where
  "hoveringNoseDown = atRest (qt (5 / 13) 0 0 (12 / 13)) (vec 0 2 0) False (- 1)"

text \<open>
  Airborne and stalling, upright with the nose about 11 degrees above the horizon, with the
  stick pushed (\<open>pitch = -1\<close>) or pulled (\<open>pitch = 1\<close>).
\<close>

definition stallingPushed :: flightModel where
  "stallingPushed = (atRest (qt (- (40 / 401)) 0 0 (399 / 401)) (vec 0 500 0) False 1)\<lparr>pitch := - 1\<rparr>"

definition stallingPulled :: flightModel where
  "stallingPulled = (atRest (qt (- (40 / 401)) 0 0 (399 / 401)) (vec 0 500 0) False 1)\<lparr>pitch := 1\<rparr>"

section \<open>The tick on JavaScript numbers\<close>

text \<open>
  A JavaScript number is a double: a finite value, one of the two infinities, or \<^verbatim>\<open>NaN\<close>.
  A comparison with \<^verbatim>\<open>NaN\<close> is false, \<^verbatim>\<open>Infinity * 0\<close> and \<^verbatim>\<open>Infinity - Infinity\<close> are
  \<^verbatim>\<open>NaN\<close>, and the result of an operation on finite operands is rounded and may overflow.
  What a tick does to the landed flag, the vertical velocity, the stall index and the
  horizontal position depends on these cases. The statements of \<^verbatim>\<open>step\<close> that decide them
  (lines 52-53, 118-123 and 178-208) are therefore embedded a second time, on the type
  \<open>number\<close>. The finite values are taken from the reals; the sign of a zero is not modelled
  (a division by zero is a division by \<^verbatim>\<open>+0\<close>; the divisors of these lines are non-zero literals
  and constants).
\<close>

datatype number = Finite real | Infinity | MinusInfinity | NaN

subsection \<open>Comparisons and arithmetic\<close>

text \<open>The operators \<^verbatim>\<open><\<close>, \<^verbatim>\<open>></\<close> and \<^verbatim>\<open><=\<close>: false as soon as one side is \<^verbatim>\<open>NaN\<close>.\<close>

fun js_lt :: "number \<Rightarrow> number \<Rightarrow> bool" where
  "js_lt (Finite a) (Finite b) = (a < b)"
| "js_lt (Finite a) Infinity = True"
| "js_lt MinusInfinity (Finite b) = True"
| "js_lt MinusInfinity Infinity = True"
| "js_lt _ _ = False"

definition js_gt :: "number \<Rightarrow> number \<Rightarrow> bool" where
  "js_gt a b = js_lt b a"

fun js_le :: "number \<Rightarrow> number \<Rightarrow> bool" where
  "js_le (Finite a) (Finite b) = (a \<le> b)"
| "js_le NaN _ = False"
| "js_le _ NaN = False"
| "js_le MinusInfinity _ = True"
| "js_le _ Infinity = True"
| "js_le _ _ = False"

text \<open>Unary minus and \<^verbatim>\<open>Math.abs\<close> are exact.\<close>

fun js_neg :: "number \<Rightarrow> number" where
  "js_neg (Finite a) = Finite (- a)"
| "js_neg Infinity = MinusInfinity"
| "js_neg MinusInfinity = Infinity"
| "js_neg NaN = NaN"

fun Math_abs :: "number \<Rightarrow> number" where
  "Math_abs (Finite a) = Finite \<bar>a\<bar>"
| "Math_abs Infinity = Infinity"
| "Math_abs MinusInfinity = Infinity"
| "Math_abs NaN = NaN"

text \<open>
  The operators \<^verbatim>\<open>+\<close>, \<^verbatim>\<open>-\<close>, \<^verbatim>\<open>*\<close> and \<^verbatim>\<open>/\<close>. On finite operands the result is \<open>rnd\<close> of the
  exact result, where \<open>rnd\<close> is a parameter: the theorems below hold for every function \<open>rnd\<close>
  from the reals to the numbers, so for rounding to the nearest double with overflow to an
  infinity in particular. On the other operands the result is the one of IEEE 754.
\<close>

fun js_add :: "(real \<Rightarrow> number) \<Rightarrow> number \<Rightarrow> number \<Rightarrow> number" where
  "js_add rnd (Finite a) (Finite b) = rnd (a + b)"
| "js_add rnd NaN _ = NaN"
| "js_add rnd _ NaN = NaN"
| "js_add rnd Infinity MinusInfinity = NaN"
| "js_add rnd MinusInfinity Infinity = NaN"
| "js_add rnd Infinity _ = Infinity"
| "js_add rnd _ Infinity = Infinity"
| "js_add rnd MinusInfinity _ = MinusInfinity"
| "js_add rnd _ MinusInfinity = MinusInfinity"

definition js_sub :: "(real \<Rightarrow> number) \<Rightarrow> number \<Rightarrow> number \<Rightarrow> number" where
  "js_sub rnd a b = js_add rnd a (js_neg b)"

fun js_mul :: "(real \<Rightarrow> number) \<Rightarrow> number \<Rightarrow> number \<Rightarrow> number" where
  "js_mul rnd (Finite a) (Finite b) = rnd (a * b)"
| "js_mul rnd NaN _ = NaN"
| "js_mul rnd _ NaN = NaN"
| "js_mul rnd Infinity (Finite b) = (if b = 0 then NaN else if 0 < b then Infinity else MinusInfinity)"
| "js_mul rnd MinusInfinity (Finite b) = (if b = 0 then NaN else if 0 < b then MinusInfinity else Infinity)"
| "js_mul rnd (Finite a) Infinity = (if a = 0 then NaN else if 0 < a then Infinity else MinusInfinity)"
| "js_mul rnd (Finite a) MinusInfinity = (if a = 0 then NaN else if 0 < a then MinusInfinity else Infinity)"
| "js_mul rnd Infinity Infinity = Infinity"
| "js_mul rnd MinusInfinity MinusInfinity = Infinity"
| "js_mul rnd Infinity MinusInfinity = MinusInfinity"
| "js_mul rnd MinusInfinity Infinity = MinusInfinity"

fun js_div :: "(real \<Rightarrow> number) \<Rightarrow> number \<Rightarrow> number \<Rightarrow> number" where
  "js_div rnd (Finite a) (Finite b) =
     (if b \<noteq> 0 then rnd (a / b)
      else if a = 0 then NaN else if 0 < a then Infinity else MinusInfinity)"
| "js_div rnd NaN _ = NaN"
| "js_div rnd _ NaN = NaN"
| "js_div rnd (Finite a) _ = Finite 0"
| "js_div rnd Infinity (Finite b) = (if 0 \<le> b then Infinity else MinusInfinity)"
| "js_div rnd MinusInfinity (Finite b) = (if 0 \<le> b then MinusInfinity else Infinity)"
| "js_div rnd _ _ = NaN"

text \<open>
  \<^verbatim>\<open>Math.sqrt\<close> is correctly rounded. \<^verbatim>\<open>Math.sin\<close> and \<^verbatim>\<open>Math.exp\<close> are approximations that
  the language leaves to the implementation: their values at a finite argument are two more
  parameters, \<open>sn\<close> and \<open>ex\<close>.
\<close>

fun Math_sqrt :: "(real \<Rightarrow> number) \<Rightarrow> number \<Rightarrow> number" where
  "Math_sqrt rnd (Finite a) = (if a < 0 then NaN else rnd (sqrt a))"
| "Math_sqrt rnd Infinity = Infinity"
| "Math_sqrt rnd _ = NaN"

fun Math_sin :: "(real \<Rightarrow> number) \<Rightarrow> number \<Rightarrow> number" where
  "Math_sin sn (Finite a) = sn a"
| "Math_sin sn _ = NaN"

fun Math_exp :: "(real \<Rightarrow> number) \<Rightarrow> number \<Rightarrow> number" where
  "Math_exp ex (Finite a) = ex a"
| "Math_exp ex Infinity = Infinity"
| "Math_exp ex MinusInfinity = Finite 0"
| "Math_exp ex NaN = NaN"

fun Math_min :: "number \<Rightarrow> number \<Rightarrow> number" where
  "Math_min NaN _ = NaN"
| "Math_min _ NaN = NaN"
| "Math_min a b = (if js_lt b a then b else a)"

fun Math_max :: "number \<Rightarrow> number \<Rightarrow> number" where
  "Math_max NaN _ = NaN"
| "Math_max _ NaN = NaN"
| "Math_max a b = (if js_lt a b then b else a)"

text \<open>The three parameters together: the arithmetic of the machine that runs the code.\<close>

record js_arith =
  ar_round :: "real \<Rightarrow> number"
  ar_sin :: "real \<Rightarrow> number"
  ar_exp :: "real \<Rightarrow> number"

subsection \<open>Helpers of \<^verbatim>\<open>utils/math\<close> and \<^verbatim>\<open>Vector3\<close> on numbers\<close>

text \<open>
  Modelled from the spec: \<^verbatim>\<open>clamp(value, min, max)\<close> of \<^verbatim>\<open>utils/math\<close> on numbers, written
  with \<^verbatim>\<open>Math.max\<close> and \<^verbatim>\<open>Math.min\<close>. A \<^verbatim>\<open>NaN\<close> value comes back as \<^verbatim>\<open>NaN\<close>, as it does
  when the helper is written with two comparisons instead.
\<close>

definition js_clamp :: "number \<Rightarrow> number \<Rightarrow> number \<Rightarrow> number" where
  "js_clamp value lo hi = Math_max lo (Math_min hi value)"

text \<open>
  Modelled from the spec: \<^verbatim>\<open>isZero\<close> of \<^verbatim>\<open>utils/math\<close> on numbers, \<^verbatim>\<open>Math.abs(n) < eps\<close>;
  \<^verbatim>\<open>NaN\<close> is not near zero.
\<close>

definition js_isZero :: "number \<Rightarrow> number \<Rightarrow> bool" where
  "js_isZero eps n = js_lt (Math_abs n) eps"

record jvec3 =
  j_x :: number
  j_y :: number
  j_z :: number

definition js_vec :: "number \<Rightarrow> number \<Rightarrow> number \<Rightarrow> jvec3" where
  "js_vec a b c = \<lparr>j_x = a, j_y = b, j_z = c\<rparr>"

text \<open>
  Modelled from the spec: \<^verbatim>\<open>roundToZero\<close> of \<^verbatim>\<open>utils/math\<close> on numbers; a component that is
  near zero becomes zero, every other component, \<^verbatim>\<open>NaN\<close> included, is kept.
\<close>

definition js_roundToZero :: "number \<Rightarrow> jvec3 \<Rightarrow> jvec3" where
  "js_roundToZero eps v =
     \<lparr>j_x = (if js_isZero eps (j_x v) then Finite 0 else j_x v),
      j_y = (if js_isZero eps (j_y v) then Finite 0 else j_y v),
      j_z = (if js_isZero eps (j_z v) then Finite 0 else j_z v)\<rparr>"

text \<open>\<^verbatim>\<open>Vector3.addScaledVector\<close>: \<^verbatim>\<open>this.x += v.x * s\<close> and so on.\<close>

definition js_addScaledVector :: "(real \<Rightarrow> number) \<Rightarrow> jvec3 \<Rightarrow> jvec3 \<Rightarrow> number \<Rightarrow> jvec3" where
  "js_addScaledVector rnd a v k =
     \<lparr>j_x = js_add rnd (j_x a) (js_mul rnd (j_x v) k),
      j_y = js_add rnd (j_y a) (js_mul rnd (j_y v) k),
      j_z = js_add rnd (j_z a) (js_mul rnd (j_z v) k)\<rparr>"

text \<open>\<^verbatim>\<open>Vector3.length\<close>: \<^verbatim>\<open>Math.sqrt(this.x * this.x + this.y * this.y + this.z * this.z)\<close>.\<close>

definition js_length :: "(real \<Rightarrow> number) \<Rightarrow> jvec3 \<Rightarrow> number" where
  "js_length rnd v =
     Math_sqrt rnd
       (js_add rnd (js_add rnd (js_mul rnd (j_x v) (j_x v)) (js_mul rnd (j_y v) (j_y v)))
                   (js_mul rnd (j_z v) (j_z v)))"

subsection \<open>The state and the head of the tick\<close>

text \<open>
  The state, with the orientation of any type \<open>'o\<close>: no statement below looks into it. The
  control inputs roll, pitch and yaw are read by the rotations only and are left out.
\<close>

record 'o js_flightModel =
  js_quaternion :: 'o
  js_position :: jvec3
  js_velocity :: jvec3
  js_throttle :: number
  js_landed :: bool
  js_stall :: number

text \<open>
  Lines 45-177 turn the aircraft, rotate the velocity and add up the forces; they write the
  orientation, the stall index and the velocity, and neither the position, the throttle nor
  the landed flag. Of their results the end of the tick reads what this record holds: the
  \<open>y\<close> components of \<^verbatim>\<open>this.forward\<close> and \<^verbatim>\<open>this.right\<close> (lines 45 and 47), the angle of
  attack (line 58), the orientation after the rotations (lines 61-97), the velocity after the
  velocity rotation (lines 136-153) and the acceleration (line 177). The quaternion algebra
  behind them is not repeated on numbers: a theorem that holds for every value of this
  record holds for the values that the code computes.
\<close>

record 'o js_head =
  h_forwardY :: number
  h_rightY :: number
  h_aoa :: number
  h_quaternion :: 'o
  h_velocity :: jvec3
  h_accel :: jvec3

text \<open>Line 52: the air density at the altitude of the start of the tick.\<close>

definition js_airDensity :: "js_arith \<Rightarrow> number \<Rightarrow> number" where
  "js_airDensity m y =
     js_mul (ar_round m) (ar_round m GROUND_AIR_DENSITY)
       (Math_exp (ar_exp m) (js_div (ar_round m) (js_neg y) (Finite 8000)))"

text \<open>
  Lines 118-123: the argument of \<^verbatim>\<open>clamp\<close> and the stall index. The literals \<open>0.75\<close>, \<open>0.5\<close>,
  \<open>1.5\<close>, \<open>2\<close>, \<open>6\<close>, \<open>7\<close>, \<open>8\<close> and \<open>256\<close> are doubles; \<open>0.2\<close>, \<open>1.225\<close> and \<^verbatim>\<open>Math.PI\<close> are rounded.
\<close>

definition js_stallArgument ::
    "js_arith \<Rightarrow> number \<Rightarrow> number \<Rightarrow> number \<Rightarrow> number \<Rightarrow> number \<Rightarrow> number" where
  "js_stallArgument m speed airDensity forwardY rightYraw aoa =
     (let rnd = ar_round m;
          aoaLift = js_mul rnd (rnd 0.2)
            (if js_lt aoa (js_div rnd (rnd pi) (Finite 8.0))
                \<or> js_gt aoa (js_div rnd (js_mul rnd (Finite 7) (rnd pi)) (Finite 8.0))
             then Math_sin (ar_sin m) (js_mul rnd (Finite 6.0) aoa)
             else Math_sin (ar_sin m) (js_mul rnd (Finite 2.0) aoa));
          minLiftFactor =
            js_mul rnd (js_mul rnd (Finite 2.0)
                          (js_add rnd (js_mul rnd (Finite 0.75) (Finite 0.75)) (Finite 0.75)))
                       (rnd GROUND_AIR_DENSITY);
          fwdY = forwardY;
          rightY = Math_abs rightYraw;
          liftFactor =
            js_mul rnd
              (js_mul rnd (js_mul rnd (Finite 2) (js_div rnd speed (Finite 256.0)))
                 (js_add rnd
                    (js_mul rnd (js_add rnd (js_mul rnd (Finite (- 0.5)) fwdY) (Finite 1.5))
                                (js_add rnd (js_mul rnd (Finite (- 0.5)) rightY) (Finite 1.5)))
                    (js_add rnd (js_mul rnd (Finite (- 0.5)) rightY) (Finite 1.5))))
              airDensity
      in js_sub rnd
           (js_add rnd (js_div rnd liftFactor minLiftFactor)
                       (js_mul rnd aoaLift (js_sub rnd (Finite 1.0) rightY)))
           (Finite 1.0))"

definition js_stallIndex ::
    "js_arith \<Rightarrow> number \<Rightarrow> number \<Rightarrow> number \<Rightarrow> number \<Rightarrow> number \<Rightarrow> number" where
  "js_stallIndex m speed airDensity forwardY rightYraw aoa =
     js_neg (js_clamp (js_stallArgument m speed airDensity forwardY rightYraw aoa)
               (Finite (- 1.0)) (Finite 1.0))"

text \<open>
  The state after line 153: the stall index of line 123, computed from the speed and the air
  density of lines 52-53, and the orientation and the velocity that the head of the tick
  leaves.
\<close>

definition js_beginTick :: "js_arith \<Rightarrow> 'o js_head \<Rightarrow> 'o js_flightModel \<Rightarrow> 'o js_flightModel" where
  "js_beginTick m hr t =
     (let airDensity = js_airDensity m (j_y (js_position t));
          speed = js_length (ar_round m) (js_velocity t)
      in t\<lparr>js_quaternion := h_quaternion hr,
           js_stall := js_stallIndex m speed airDensity (h_forwardY hr) (h_rightY hr) (h_aoa hr),
           js_velocity := h_velocity hr\<rparr>)"

subsection \<open>The end of the tick\<close>

text \<open>Lines 178-181: the velocity gains the acceleration; on the ground it does not point down.\<close>

definition js_timestep ::
    "(real \<Rightarrow> number) \<Rightarrow> number \<Rightarrow> jvec3 \<Rightarrow> 'o js_flightModel \<Rightarrow> 'o js_flightModel" where
  "js_timestep rnd delta accel t =
     (let v = js_addScaledVector rnd (js_velocity t) accel delta
      in t\<lparr>js_velocity := (if js_landed t \<and> js_lt (j_y v) (Finite 0) then v\<lparr>j_y := Finite 0\<rparr> else v)\<rparr>)"

text \<open>
  Lines 184-187: the velocity is rounded to zero in place, with the tolerance \<open>0.01\<close> or \<open>0.1\<close>,
  the position moves, and an altitude above the ground clearance clears the landed flag. The
  constants of \<^verbatim>\<open>defs\<close> are finite.
\<close>

definition js_applyVelocity ::
    "(real \<Rightarrow> number) \<Rightarrow> defs \<Rightarrow> number \<Rightarrow> 'o js_flightModel \<Rightarrow> 'o js_flightModel" where
  "js_applyVelocity rnd c delta t =
     (let v = js_roundToZero (if js_gt (js_throttle t) (Finite 0) then rnd 0.01 else rnd 0.1)
                (js_velocity t);
          p = js_addScaledVector rnd (js_position t) v delta;
          t1 = t\<lparr>js_velocity := v, js_position := p\<rparr>
      in if js_gt (j_y p) (Finite (PLANE_DISTANCE_TO_GROUND c)) then t1\<lparr>js_landed := False\<rparr> else t1)"

definition js_integrate ::
    "(real \<Rightarrow> number) \<Rightarrow> defs \<Rightarrow> number \<Rightarrow> jvec3 \<Rightarrow> 'o js_flightModel \<Rightarrow> 'o js_flightModel" where
  "js_integrate rnd c delta accel t = js_applyVelocity rnd c delta (js_timestep rnd delta accel t)"

text \<open>
  Lines 191-201: the ground clamp. The parameter \<open>level\<close> stands for lines 193-197, which turn
  the aircraft (\<^verbatim>\<open>getWorldDirection\<close>, \<^verbatim>\<open>lookAt\<close>) and write nothing but the orientation.
\<close>

definition js_avoidGroundCrashes ::
    "('o \<Rightarrow> jvec3 \<Rightarrow> 'o) \<Rightarrow> defs \<Rightarrow> 'o js_flightModel \<Rightarrow> 'o js_flightModel" where
  "js_avoidGroundCrashes level c t =
     (if js_lt (j_y (js_position t)) (Finite (PLANE_DISTANCE_TO_GROUND c)) then
        (let p = (js_position t)\<lparr>j_y := Finite (PLANE_DISTANCE_TO_GROUND c)\<rparr>
         in t\<lparr>js_position := p, js_quaternion := level (js_quaternion t) p,
              js_velocity := (js_velocity t)\<lparr>j_y := Finite 0\<rparr>,
              js_stall := Finite (- 1), js_landed := True\<rparr>)
      else t)"

text \<open>Lines 204-208: the world wrap, four tests one after the other.\<close>

definition js_terrainHalfSize :: "(real \<Rightarrow> number) \<Rightarrow> defs \<Rightarrow> number" where
  "js_terrainHalfSize rnd c =
     js_mul rnd (js_mul rnd (Finite 2.5) (Finite (TERRAIN_SCALE c))) (Finite (TERRAIN_MODEL_SIZE c))"

definition js_wrapPosition :: "number \<Rightarrow> jvec3 \<Rightarrow> jvec3" where
  "js_wrapPosition h p0 =
     (let p1 = (if js_gt (j_x p0) h then p0\<lparr>j_x := js_neg h\<rparr> else p0);
          p2 = (if js_lt (j_x p1) (js_neg h) then p1\<lparr>j_x := h\<rparr> else p1);
          p3 = (if js_gt (j_z p2) h then p2\<lparr>j_z := js_neg h\<rparr> else p2);
          p4 = (if js_lt (j_z p3) (js_neg h) then p3\<lparr>j_z := h\<rparr> else p3)
      in p4)"

definition js_wrapAround :: "(real \<Rightarrow> number) \<Rightarrow> defs \<Rightarrow> 'o js_flightModel \<Rightarrow> 'o js_flightModel" where
  "js_wrapAround rnd c t =
     t\<lparr>js_position := js_wrapPosition (js_terrainHalfSize rnd c) (js_position t)\<rparr>"

text \<open>One call of \<^verbatim>\<open>step\<close>, and \<^verbatim>\<open>getStallStatus\<close>.\<close>

definition js_step ::
    "js_arith \<Rightarrow> ('o \<Rightarrow> jvec3 \<Rightarrow> 'o) \<Rightarrow> defs \<Rightarrow> number \<Rightarrow> 'o js_head
       \<Rightarrow> 'o js_flightModel \<Rightarrow> 'o js_flightModel" where
  "js_step m level c delta hr t =
     js_wrapAround (ar_round m) c
       (js_avoidGroundCrashes level c
          (js_integrate (ar_round m) c delta (h_accel hr) (js_beginTick m hr t)))"

definition js_getStallStatus :: "'o js_flightModel \<Rightarrow> number" where
  "js_getStallStatus t = js_stall t"

subsection \<open>An example arithmetic and example states\<close>

text \<open>
  An arithmetic to compute examples with: a result beyond the largest double overflows to an
  infinity, \<^verbatim>\<open>Math.exp\<close> underflows to zero below \<open>-746\<close> and overflows above \<open>710\<close>, and
  nothing else is rounded. Where the doubles round a finite result in its last digits, this
  arithmetic keeps the exact value; the infinities, the zeros and the \<^verbatim>\<open>NaN\<close> of the examples
  below are those of the doubles.
\<close>

definition js_overflow :: "real \<Rightarrow> number" where
  "js_overflow r =
     (if 2 ^ 1024 \<le> r then Infinity else if r \<le> - (2 ^ 1024) then MinusInfinity else Finite r)"

definition overflowArith :: js_arith where
  "overflowArith =
     \<lparr>ar_round = js_overflow,
      ar_sin = (\<lambda>a. Finite (sin a)),
      ar_exp = (\<lambda>a. if a < - 746 then Finite 0 else if 710 < a then Infinity else Finite (exp a))\<rparr>"

text \<open>An orientation without content, and a ground clamp that leaves it alone.\<close>

definition js_keepHeading :: "unit \<Rightarrow> jvec3 \<Rightarrow> unit" where
  "js_keepHeading q p = q"

text \<open>
  Motionless at position \<open>p\<close> with the throttle closed. With the aircraft level, its velocity
  stays zero in the head of the tick, the forces reduce to the weight, and the acceleration
  is \<open>(0, -9.8, 0)\<close>; the velocity direction is the zero vector and the angle of attack is
  \<^verbatim>\<open>Math.PI / 2\<close>, the value of \<^verbatim>\<open>angleTo\<close> for a zero vector.
\<close>

definition js_still :: "jvec3 \<Rightarrow> bool \<Rightarrow> unit js_flightModel" where
  "js_still p ld =
     \<lparr>js_quaternion = (), js_position = p,
      js_velocity = js_vec (Finite 0) (Finite 0) (Finite 0),
      js_throttle = Finite 0, js_landed = ld, js_stall = Finite (- 1)\<rparr>"

definition js_falling :: "unit js_head" where
  "js_falling =
     \<lparr>h_forwardY = Finite 0, h_rightY = Finite 0, h_aoa = Finite (pi / 2), h_quaternion = (),
      h_velocity = js_vec (Finite 0) (Finite 0) (Finite 0),
      h_accel = js_vec (Finite 0) (Finite (- 9.8)) (Finite 0)\<rparr>"

definition js_parked :: "unit js_flightModel" where
  "js_parked = js_still (js_vec (Finite 0) (Finite 2) (Finite 0)) True"

definition js_parkedOutside :: "unit js_flightModel" where
  "js_parkedOutside = js_still (js_vec (Finite 30000) (Finite 2) (Finite (- 26000))) True"

definition js_hovering :: "unit js_flightModel" where
  "js_hovering = js_still (js_vec (Finite 0) (Finite 2) (Finite 0)) False"

definition js_aloft :: "unit js_flightModel" where
  "js_aloft = js_still (js_vec (Finite 0) (Finite 1000) (Finite 0)) False"

text \<open>
  Rolling on the ground at 5 m/s with the nose about 11 degrees up (\<open>rollingNoseUp\<close> above),
  and what the head of a tick of length zero leaves: the velocity turned into the nose
  direction, \<open>5 * (0, 31920/160801, 157601/160801)\<close>, and a finite acceleration whose value
  does not matter for a tick of length zero.
\<close>

definition js_rolling :: "unit js_flightModel" where
  "js_rolling =
     (js_still (js_vec (Finite 0) (Finite 2) (Finite 0)) True)
       \<lparr>js_velocity := js_vec (Finite 0) (Finite 0) (Finite 5)\<rparr>"

definition js_climbing :: "unit js_head" where
  "js_climbing =
     \<lparr>h_forwardY = Finite (31920 / 160801), h_rightY = Finite 0,
      h_aoa = Finite (arccos (157601 / 160801)),
      h_quaternion = (),
      h_velocity = js_vec (Finite 0) (Finite (159600 / 160801)) (Finite (788005 / 160801)),
      h_accel = js_vec (Finite 0) (Finite (- 9.8)) (Finite 0)\<rparr>"

text \<open>Parked, with an \<open>x\<close> coordinate that is \<^verbatim>\<open>NaN\<close>.\<close>

definition js_adrift :: "unit js_flightModel" where
  "js_adrift = js_still (js_vec NaN (Finite 2) (Finite 0)) True"

text \<open>
  A runaway state made of finite numbers: level flight along \<open>z\<close> at \<open>2^700\<close> m/s, ten thousand
  kilometres up. The square of the speed overflows, so \<^verbatim>\<open>velocity.length()\<close> is \<^verbatim>\<open>Infinity\<close>
  and the velocity direction \<^verbatim>\<open>velocity / Infinity\<close> is the zero vector, which gives the angle
  of attack \<^verbatim>\<open>Math.PI / 2\<close>; \<^verbatim>\<open>Math.exp(-1250)\<close> underflows, so the air density is \<open>0\<close>. The
  drag is the zero vector scaled by \<^verbatim>\<open>Math.pow(0 * Infinity * ..., ...)\<close> and the rotated
  velocity is a zero vector scaled by \<^verbatim>\<open>Infinity\<close>: the head of the tick leaves \<^verbatim>\<open>NaN\<close> in every
  component of the velocity and of the acceleration.
\<close>

definition js_runaway :: "unit js_flightModel" where
  "js_runaway =
     (js_still (js_vec (Finite 0) (Finite (10 ^ 7)) (Finite 0)) False)
       \<lparr>js_velocity := js_vec (Finite 0) (Finite 0) (Finite (2 ^ 700))\<rparr>"

definition js_undefined :: "unit js_head" where
  "js_undefined =
     \<lparr>h_forwardY = Finite 0, h_rightY = Finite 0, h_aoa = Finite (pi / 2), h_quaternion = (),
      h_velocity = js_vec NaN NaN NaN, h_accel = js_vec NaN NaN NaN\<rparr>"


section \<open>Properties\<close>

subsection \<open>Selectors and frames\<close>

lemma vec_sel [simp]: "v_x (vec a b c) = a" "v_y (vec a b c) = b" "v_z (vec a b c) = c"
  by (simp_all add: vec_def)

lemma qt_sel [simp]: "q_x (qt a b c d) = a" "q_y (qt a b c d) = b" "q_z (qt a b c d) = c" "q_w (qt a b c d) = d"
  by (simp_all add: qt_def)

lemma rollControl_frame:
  "velocity (rollControl c d s) = velocity s" "roll (rollControl c d s) = roll s"
  "pitch (rollControl c d s) = pitch s" "yaw (rollControl c d s) = yaw s"
  "throttle (rollControl c d s) = throttle s" "landed (rollControl c d s) = landed s"
  "stall (rollControl c d s) = stall s" "m_scratch (rollControl c d s) = m_scratch s"
  "position (obj (rollControl c d s)) = position (obj s)"
  by (simp_all add: rollControl_def o3_rotateZ_def o3_rotateOnAxis_def)

lemma pitchControl_frame:
  "velocity (pitchControl c d b s) = velocity s" "roll (pitchControl c d b s) = roll s"
  "pitch (pitchControl c d b s) = pitch s" "yaw (pitchControl c d b s) = yaw s"
  "throttle (pitchControl c d b s) = throttle s" "landed (pitchControl c d b s) = landed s"
  "stall (pitchControl c d b s) = stall s" "m_scratch (pitchControl c d b s) = m_scratch s"
  "position (obj (pitchControl c d b s)) = position (obj s)"
  by (simp_all add: pitchControl_def o3_rotateX_def o3_rotateOnAxis_def)

lemma yawControl_frame:
  "velocity (yawControl c d sp s) = velocity s" "roll (yawControl c d sp s) = roll s"
  "pitch (yawControl c d sp s) = pitch s" "yaw (yawControl c d sp s) = yaw s"
  "throttle (yawControl c d sp s) = throttle s" "landed (yawControl c d sp s) = landed s"
  "stall (yawControl c d sp s) = stall s" "m_scratch (yawControl c d sp s) = m_scratch s"
  "position (obj (yawControl c d sp s)) = position (obj s)"
  by (simp_all add: yawControl_def o3_rotateY_def o3_rotateOnAxis_def)

lemma autoYaw_frame:
  "velocity (autoYaw c d b s) = velocity s" "roll (autoYaw c d b s) = roll s"
  "pitch (autoYaw c d b s) = pitch s" "yaw (autoYaw c d b s) = yaw s"
  "throttle (autoYaw c d b s) = throttle s" "landed (autoYaw c d b s) = landed s"
  "stall (autoYaw c d b s) = stall s" "m_scratch (autoYaw c d b s) = m_scratch s"
  "position (obj (autoYaw c d b s)) = position (obj s)"
  by (simp_all add: autoYaw_def o3_rotateOnWorldAxis_def)

lemma pointDown_frame:
  "velocity (pointDownWhenStalling d b s) = velocity s" "roll (pointDownWhenStalling d b s) = roll s"
  "pitch (pointDownWhenStalling d b s) = pitch s" "yaw (pointDownWhenStalling d b s) = yaw s"
  "throttle (pointDownWhenStalling d b s) = throttle s" "landed (pointDownWhenStalling d b s) = landed s"
  "stall (pointDownWhenStalling d b s) = stall s" "m_scratch (pointDownWhenStalling d b s) = m_scratch s"
  "position (obj (pointDownWhenStalling d b s)) = position (obj s)"
  by (simp_all add: pointDownWhenStalling_def o3_rotateOnWorldAxis_def Let_def)

lemmas rot_frames = rollControl_frame pitchControl_frame yawControl_frame autoYaw_frame pointDown_frame

lemma rotationControls_frame:
  "velocity (rotationControls c d b sp s) = velocity s" "roll (rotationControls c d b sp s) = roll s"
  "pitch (rotationControls c d b sp s) = pitch s" "yaw (rotationControls c d b sp s) = yaw s"
  "throttle (rotationControls c d b sp s) = throttle s" "landed (rotationControls c d b sp s) = landed s"
  "stall (rotationControls c d b sp s) = stall s" "m_scratch (rotationControls c d b sp s) = m_scratch s"
  "position (obj (rotationControls c d b sp s)) = position (obj s)"
  by (simp_all add: rotationControls_def rot_frames)

lemma magic_frame:
  "roll (magicVelocityRotation c d b sp s) = roll s"
  "pitch (magicVelocityRotation c d b sp s) = pitch s" "yaw (magicVelocityRotation c d b sp s) = yaw s"
  "throttle (magicVelocityRotation c d b sp s) = throttle s" "landed (magicVelocityRotation c d b sp s) = landed s"
  "stall (magicVelocityRotation c d b sp s) = stall s"
  "obj (magicVelocityRotation c d b sp s) = obj s"
  by (simp_all add: magicVelocityRotation_def Let_def)

lemma timestep_frame:
  "roll (timestep c d f fr s) = roll s"
  "pitch (timestep c d f fr s) = pitch s" "yaw (timestep c d f fr s) = yaw s"
  "throttle (timestep c d f fr s) = throttle s" "landed (timestep c d f fr s) = landed s"
  "stall (timestep c d f fr s) = stall s" "m_scratch (timestep c d f fr s) = m_scratch s"
  "obj (timestep c d f fr s) = obj s"
  by (simp_all add: timestep_def Let_def)

lemma applyVelocity_frame:
  "roll (applyVelocity c d s) = roll s"
  "pitch (applyVelocity c d s) = pitch s" "yaw (applyVelocity c d s) = yaw s"
  "throttle (applyVelocity c d s) = throttle s"
  "stall (applyVelocity c d s) = stall s" "m_scratch (applyVelocity c d s) = m_scratch s"
  "quaternion (obj (applyVelocity c d s)) = quaternion (obj s)"
  by (simp_all add: applyVelocity_def Let_def)

lemma avoidGround_frame:
  "roll (avoidGroundCrashes c s) = roll s"
  "pitch (avoidGroundCrashes c s) = pitch s" "yaw (avoidGroundCrashes c s) = yaw s"
  "throttle (avoidGroundCrashes c s) = throttle s"
  "m_scratch (avoidGroundCrashes c s) = m_scratch s"
  by (simp_all add: avoidGroundCrashes_def Let_def)

lemma wrapAround_frame:
  "roll (wrapAround c s) = roll s"
  "pitch (wrapAround c s) = pitch s" "yaw (wrapAround c s) = yaw s"
  "throttle (wrapAround c s) = throttle s" "landed (wrapAround c s) = landed s"
  "stall (wrapAround c s) = stall s" "velocity (wrapAround c s) = velocity s"
  "m_scratch (wrapAround c s) = m_scratch s"
  "quaternion (obj (wrapAround c s)) = quaternion (obj s)"
  by (simp_all add: wrapAround_def)

lemma integrate_frame:
  "roll (integrate c d s) = roll s"
  "pitch (integrate c d s) = pitch s" "yaw (integrate c d s) = yaw s"
  "throttle (integrate c d s) = throttle s"
  by (simp_all add: integrate_def accelerate_def Let_def applyVelocity_frame timestep_frame
      magic_frame rotationControls_frame)

lemma integrate_stall: "stall (integrate c d s) = stallIndex (tickBasis c s) (airDensityAt s) (v3_length (velocity s)) (angleOfAttack (tickBasis c s))"
  by (simp add: integrate_def accelerate_def Let_def applyVelocity_frame timestep_frame magic_frame)

subsection \<open>An aircraft at rest\<close>

lemma vec_eta [simp]: "vec (v_x v) (v_y v) (v_z v) = v"
  by (simp add: vec_def)

lemma qt_eta [simp]: "qt (q_x q) (q_y q) (q_z q) (q_w q) = q"
  by (simp add: qt_def)

lemma vec_eq_iff: "(v = vec a b c) = (v_x v = a \<and> v_y v = b \<and> v_z v = c)"
  by (cases v) (auto simp: vec_def)

lemma vec_inject [simp]: "(vec a b c = vec a' b' c') = (a = a' \<and> b = b' \<and> c = c')"
  by (simp add: vec_def)

lemma vec_upd [simp]: "(vec a b c)\<lparr>v_x := k\<rparr> = vec k b c" "(vec a b c)\<lparr>v_y := k\<rparr> = vec a k c" "(vec a b c)\<lparr>v_z := k\<rparr> = vec a b k"
  by (simp_all add: vec_def)

lemma v3_length_zero_iff: "(v3_length v = 0) = (v = vec 0 0 0)"
proof -
  have "(v_x v * v_x v + v_y v * v_y v + v_z v * v_z v = 0) = (v_x v = 0 \<and> v_y v = 0 \<and> v_z v = 0)"
    by (smt (verit) mult_eq_0_iff zero_le_square add_nonneg_eq_0_iff add_nonneg_nonneg)
  then show ?thesis
    by (simp add: v3_length_def vec_eq_iff)
qed

lemma v3_length_zero [simp]: "v3_length (vec 0 0 0) = 0"
  by (simp add: v3_length_def)

lemma v3_normalize_zero [simp]: "v3_normalize (vec 0 0 0) = vec 0 0 0"
  by (simp add: v3_normalize_def v3_divideScalar_def v3_multiplyScalar_def)

lemma roundToZero_zero [simp]: "roundToZero eps (vec 0 0 0) = vec 0 0 0"
  by (simp add: roundToZero_def)

lemma isZero_zero [simp]: "0 < eps \<Longrightarrow> isZero eps 0"
  by (simp add: isZero_def)

lemma aoa_rest: "velocityUnit b = vec 0 0 0 \<Longrightarrow> angleOfAttack b = pi / 2"
  by (simp add: angleOfAttack_def Let_def v3_projectOnPlane_def v3_projectOnVector_def v3_sub_def
      v3_multiplyScalar_def v3_angleTo_def v3_lengthSq_def v3_cross_def v3_dot_def)

lemma stallIndex_rest: "stallIndex b a 0 (pi / 2) = 1"
  by (simp add: stallIndex_def Let_def clamp_def)

lemma drag_rest: "velocityUnit b = vec 0 0 0 \<Longrightarrow> dragForce c b a sp aoa = vec 0 0 0"
  by (simp add: dragForce_def Let_def v3_negate_def v3_multiplyScalar_def)

lemma thrust_idle: "throttle s = 0 \<Longrightarrow> thrustForce c b a s = vec 0 0 0"
  by (simp add: thrustForce_def v3_multiplyScalar_def)

lemma weight_rest: "weightForce c b 0 =
   vec ((- v_x (UP c) - v_x (forward b) * v_y (forward b)) * (DRY_MASS * GRAVITY))
       ((- v_y (UP c) - v_y (forward b) * v_y (forward b)) * (DRY_MASS * GRAVITY))
       ((- v_z (UP c) - v_z (forward b) * v_y (forward b)) * (DRY_MASS * GRAVITY))"
  by (simp add: weightForce_def Let_def clamp_def easeOutCirc_def v3_multiplyScalar_def v3_addScaledVector_def)

lemma magic_rest: "0 < EPSILON c \<Longrightarrow> magicVelocityRotation c d b 0 s = s"
  by (simp add: magicVelocityRotation_def)

lemma tickBasis_rest: "velocity s = vec 0 0 0 \<Longrightarrow> velocityUnit (tickBasis c s) = vec 0 0 0"
  by (simp add: tickBasis_def Let_def)

lemma axisAngle_zero: "q_setFromAxisAngle ax 0 = qt 0 0 0 1"
  by (simp add: q_setFromAxisAngle_def)

lemma premultiply_id: "q_premultiply q (qt 0 0 0 1) = q"
  by (simp add: q_premultiply_def q_multiplyQuaternions_def)

lemma rotateOnWorldAxis_zero: "o3_rotateOnWorldAxis ob ax 0 = ob"
  by (simp add: o3_rotateOnWorldAxis_def axisAngle_zero premultiply_id)

lemma autoYaw_level: "bankIndicator b = vec 0 0 0 \<Longrightarrow> autoYaw c d b s = s"
  by (simp add: autoYaw_def autoYawAngle_def rotateOnWorldAxis_zero)

lemma rotations_idle:
  assumes "0 < EPSILON c" "roll s = 0" "pitch s = 0" "yaw s = 0" "bankIndicator b = vec 0 0 0"
    "stall s < 0 \<or> landed s"
  shows "rotationControls c d b sp s = s"
  using assms
  by (auto simp add: rotationControls_def rollControl_def pitchControl_def yawControl_def autoYaw_level
      pointDownWhenStalling_def)

lemma accelerate_rest:
  assumes "0 < EPSILON c" "roll s = 0" "pitch s = 0" "yaw s = 0" "throttle s = 0"
    "velocity s = vec 0 0 0" "bankIndicator (tickBasis c s) = vec 0 0 0"
    "stall s < 0 \<or> landed s"
  shows "accelerate c d s =
     (let W = weightForce c (tickBasis c s) 0; s' = s\<lparr>stall := 1\<rparr> in
      timestep c d W (frictionForce c (tickBasis c s) 0 W s') s')"
  using assms
  by (simp add: accelerate_def Let_def rotations_idle tickBasis_rest aoa_rest drag_rest thrust_idle
      stallIndex_rest magic_rest v3_add_def)


lemma friction_rest_landed:
  assumes "0 < EPSILON c" "landed s" "velocityUnit b = vec 0 0 0"
    "v3_length (v3_setY W 0) < GROUND_FRICTION_STATIC * (DRY_MASS * GRAVITY)"
  shows "frictionForce c b 0 W s = roundToZero (EPSILON c) (vec (- v_x W) 0 (- v_z W))"
  using assms by (simp add: frictionForce_def Let_def v3_negate_def v3_setY_def)

lemma accel_rest_landed:
  assumes "0 < eps"
  shows "roundToZero eps (v3_divideScalar (v3_add W (roundToZero eps (vec (- v_x W) 0 (- v_z W)))) DRY_MASS)
       = vec 0 (if isZero eps (v_y W * (1 / DRY_MASS)) then 0 else v_y W * (1 / DRY_MASS)) 0"
  using assms
  by (auto simp add: roundToZero_def v3_divideScalar_def v3_multiplyScalar_def v3_add_def
      isZero_def DRY_MASS_def)

lemma timestep_rest_landed:
  assumes "0 < EPSILON c" "landed s" "velocityUnit b = vec 0 0 0" "velocity s = vec 0 0 0"
    "v3_length (v3_setY W 0) < GROUND_FRICTION_STATIC * (DRY_MASS * GRAVITY)"
    "v_y W \<le> 0" "0 \<le> d"
  shows "timestep c d W (frictionForce c b 0 W s) s = s"
proof -
  let ?a = "if isZero (EPSILON c) (v_y W * (1 / DRY_MASS)) then 0 else v_y W * (1 / DRY_MASS)"
  have "?a \<le> 0" using assms(6) by (simp add: DRY_MASS_def)
  then have "?a * d \<le> 0" using assms(7) by (simp add: mult_nonpos_nonneg)
  then show ?thesis
    using assms(1-5)
    by (simp add: timestep_def Let_def friction_rest_landed accel_rest_landed
        v3_addScaledVector_def v3_setY_def)
qed

lemma applyVelocity_rest:
  assumes "velocity s = vec 0 0 0" "v_y (position (obj s)) \<le> PLANE_DISTANCE_TO_GROUND c"
  shows "applyVelocity c d s = s"
  using assms by (simp add: applyVelocity_def Let_def v3_addScaledVector_def)

lemma wrapPosition_inside:
  assumes "- h \<le> v_x p" "v_x p \<le> h" "- h \<le> v_z p" "v_z p \<le> h"
  shows "wrapPosition h p = p"
  using assms by (simp add: wrapPosition_def Let_def)

lemma accelerate_rest_landed:
  assumes "0 < EPSILON c" "0 \<le> d" "roll s = 0" "pitch s = 0" "yaw s = 0" "throttle s = 0"
    "velocity s = vec 0 0 0" "landed s"
    "bankIndicator (tickBasis c s) = vec 0 0 0"
    "v3_length (v3_setY (weightForce c (tickBasis c s) 0) 0) < GROUND_FRICTION_STATIC * (DRY_MASS * GRAVITY)"
    "0 \<le> v_y (UP c)"
  shows "accelerate c d s = s\<lparr>stall := 1\<rparr>"
proof -
  let ?b = "tickBasis c s"
  let ?W = "weightForce c ?b 0"
  let ?s' = "s\<lparr>stall := 1\<rparr>"
  have "0 \<le> v_y (forward ?b) * v_y (forward ?b)" by simp
  then have "- v_y (UP c) - v_y (forward ?b) * v_y (forward ?b) \<le> 0"
    using assms(11) by linarith
  then have wy: "v_y ?W \<le> 0"
    by (simp add: weight_rest DRY_MASS_def GRAVITY_def)
  have ts: "timestep c d ?W (frictionForce c ?b 0 ?W ?s') ?s' = ?s'"
    using assms wy by (intro timestep_rest_landed) (simp_all add: tickBasis_rest)
  show ?thesis
    using assms by (simp add: accelerate_rest Let_def ts)
qed

lemma integrate_rest_landed:
  assumes "0 < EPSILON c" "0 \<le> d" "roll s = 0" "pitch s = 0" "yaw s = 0" "throttle s = 0"
    "velocity s = vec 0 0 0" "landed s"
    "v_y (position (obj s)) \<le> PLANE_DISTANCE_TO_GROUND c"
    "bankIndicator (tickBasis c s) = vec 0 0 0"
    "v3_length (v3_setY (weightForce c (tickBasis c s) 0) 0) < GROUND_FRICTION_STATIC * (DRY_MASS * GRAVITY)"
    "0 \<le> v_y (UP c)"
  shows "integrate c d s = s\<lparr>stall := 1\<rparr>"
  using assms by (simp add: integrate_def accelerate_rest_landed applyVelocity_rest)

lemma step_rest_landed:
  assumes "0 < EPSILON c" "0 \<le> d" "roll s = 0" "pitch s = 0" "yaw s = 0" "throttle s = 0"
    "velocity s = vec 0 0 0" "landed s"
    "v_y (position (obj s)) = PLANE_DISTANCE_TO_GROUND c"
    "bankIndicator (tickBasis c s) = vec 0 0 0"
    "v3_length (v3_setY (weightForce c (tickBasis c s) 0) 0) < GROUND_FRICTION_STATIC * (DRY_MASS * GRAVITY)"
    "0 \<le> v_y (UP c)"
    "\<bar>v_x (position (obj s))\<bar> \<le> terrainHalfSize c" "\<bar>v_z (position (obj s))\<bar> \<le> terrainHalfSize c"
  shows "step c d s = s\<lparr>stall := 1\<rparr>"
proof -
  have ig: "integrate c d s = s\<lparr>stall := 1\<rparr>"
    using assms by (intro integrate_rest_landed) simp_all
  have wp: "wrapPosition (terrainHalfSize c) (position (obj s)) = position (obj s)"
    using assms(13,14) by (intro wrapPosition_inside) auto
  show ?thesis
    using assms(9) by (simp add: step_def ig avoidGroundCrashes_def wrapAround_def wp)
qed

lemma accelerate_rest_airborne:
  assumes "0 < EPSILON c" "roll s = 0" "pitch s = 0" "yaw s = 0" "throttle s = 0"
    "velocity s = vec 0 0 0" "\<not> landed s" "stall s < 0"
    "bankIndicator (tickBasis c s) = vec 0 0 0"
  shows "accelerate c d s =
     s\<lparr>stall := 1,
       velocity := v3_addScaledVector (vec 0 0 0)
          (roundToZero (EPSILON c) (v3_divideScalar (weightForce c (tickBasis c s) 0) DRY_MASS)) d\<rparr>"
  using assms
  by (simp add: accelerate_rest Let_def timestep_def frictionForce_def v3_add_def)

lemma accelerate_keeps:
  "landed (accelerate c d s) = landed s" "position (obj (accelerate c d s)) = position (obj s)"
  "throttle (accelerate c d s) = throttle s"
  by (simp_all add: accelerate_def Let_def timestep_frame magic_frame rotationControls_frame)

subsection \<open>What a tick changes\<close>

text \<open>
  Claim C8. A call of \<^verbatim>\<open>step\<close> changes nothing but the aircraft's own orientation and position
  (\<open>obj\<close>), velocity, stall index and landed flag, together with the private scratch matrix;
  the control inputs roll, pitch, yaw and throttle come out as they went in. The configuration
  is an argument of \<open>step\<close> and not part of its result, and the result is the state alone.
\<close>

theorem step_frame:
  "roll (step c delta s) = roll s \<and> pitch (step c delta s) = pitch s
   \<and> yaw (step c delta s) = yaw s \<and> throttle (step c delta s) = throttle s
   \<and> step c delta s =
       s\<lparr>obj := obj (step c delta s), velocity := velocity (step c delta s),
         landed := landed (step c delta s), stall := stall (step c delta s),
         m_scratch := m_scratch (step c delta s)\<rparr>"
  by (simp add: step_def wrapAround_frame avoidGround_frame integrate_frame)

subsection \<open>Ground contact and stall at rest\<close>

lemma wrapPosition_y: "v_y (wrapPosition h p) = v_y p"
  by (simp add: wrapPosition_def Let_def)

lemma example_eps: "0 < EPSILON exampleDefs" "0 \<le> v_y (UP exampleDefs)"
  "PLANE_DISTANCE_TO_GROUND exampleDefs = 2" "terrainHalfSize exampleDefs = 25000"
  by (simp_all add: exampleDefs_def terrainHalfSize_def)

lemma atRest_sel:
  "velocity (atRest q p ld st) = vec 0 0 0" "roll (atRest q p ld st) = 0"
  "pitch (atRest q p ld st) = 0" "yaw (atRest q p ld st) = 0" "throttle (atRest q p ld st) = 0"
  "landed (atRest q p ld st) = ld" "stall (atRest q p ld st) = st"
  "position (obj (atRest q p ld st)) = p" "quaternion (obj (atRest q p ld st)) = q"
  by (simp_all add: atRest_def)

lemma basis_level:
  "tickBasis exampleDefs (atRest (qt 0 0 0 1) p ld st) =
     \<lparr>forward = vec 0 0 1, up = vec 0 1 0, right = vec 1 0 0, prjForward = vec 0 0 1,
      velocityUnit = vec 0 0 0\<rparr>"
  by (simp add: tickBasis_def exampleDefs_def atRest_def v3_applyQuaternion_def Let_def v3_setY_def)

lemma level_wings: "bankIndicator (tickBasis exampleDefs (atRest (qt 0 0 0 1) p ld st)) = vec 0 0 0"
  by (simp add: basis_level bankIndicator_def v3_projectOnPlane_def v3_projectOnVector_def
      v3_setY_def v3_sub_def v3_lengthSq_def v3_dot_def v3_multiplyScalar_def)

lemma level_weight:
  "weightForce exampleDefs (tickBasis exampleDefs (atRest (qt 0 0 0 1) p ld st)) 0 =
     vec 0 (- 196000) 0"
  by (simp add: basis_level weight_rest) (simp add: exampleDefs_def DRY_MASS_def GRAVITY_def)

lemma applyVelocity_landed:
  "landed (applyVelocity c d s) =
     (landed s \<and> \<not> v_y (position (obj (applyVelocity c d s))) > PLANE_DISTANCE_TO_GROUND c)"
  by (simp add: applyVelocity_def Let_def)

lemma integrate_landed:
  "landed (integrate c d s) =
     (landed s \<and> \<not> v_y (position (obj (integrate c d s))) > PLANE_DISTANCE_TO_GROUND c)"
  by (simp add: integrate_def applyVelocity_landed accelerate_keeps)

lemma step_landed:
  "landed (step c d s) =
     (v_y (position (obj (integrate c d s))) < PLANE_DISTANCE_TO_GROUND c
      \<or> (v_y (position (obj (integrate c d s))) = PLANE_DISTANCE_TO_GROUND c \<and> landed s))"
  using integrate_landed[of c d s]
  by (auto simp add: step_def wrapAround_frame avoidGroundCrashes_def Let_def)

lemma levelled_position: "position (levelHeading ob) = position ob"
  by (simp add: levelHeading_def o3_lookAt_def Let_def)

lemma step_altitude:
  "v_y (position (obj (step c d s))) =
     max (v_y (position (obj (integrate c d s)))) (PLANE_DISTANCE_TO_GROUND c)"
  by (simp add: step_def wrapAround_def wrapPosition_y avoidGroundCrashes_def Let_def
      levelled_position)

lemma accelerate_hovering:
  "accelerate exampleDefs d hovering = hovering\<lparr>stall := 1, velocity := vec 0 (- 9.8 * d) 0\<rparr>"
proof -
  have "accelerate exampleDefs d hovering =
     hovering\<lparr>stall := 1,
       velocity := v3_addScaledVector (vec 0 0 0)
          (roundToZero (EPSILON exampleDefs)
             (v3_divideScalar (weightForce exampleDefs (tickBasis exampleDefs hovering) 0) DRY_MASS)) d\<rparr>"
    unfolding hovering_def
    by (intro accelerate_rest_airborne) (simp_all add: example_eps atRest_sel level_wings)
  moreover have "roundToZero (EPSILON exampleDefs)
             (v3_divideScalar (weightForce exampleDefs (tickBasis exampleDefs hovering) 0) DRY_MASS)
      = vec 0 (- 9.8) 0"
    unfolding hovering_def level_weight
    by (simp add: v3_divideScalar_def v3_multiplyScalar_def roundToZero_def isZero_def
        exampleDefs_def DRY_MASS_def)
  ultimately show ?thesis
    by (simp add: v3_addScaledVector_def)
qed

lemma hovering_short_tick:
  "integrate exampleDefs (1 / 1000) hovering = hovering\<lparr>stall := 1\<rparr>"
  by (simp add: integrate_def accelerate_hovering applyVelocity_def Let_def roundToZero_def
      isZero_def v3_addScaledVector_def example_eps)
     (simp add: hovering_def atRest_def)


text \<open>
  Claim C9. A tick that begins with speed exactly zero and does not end in the ground clamp
  leaves a stall index of at least \<open>0.8\<close> (in fact \<open>1\<close>: the lift factor vanishes, and so does the
  lift of the angle of attack, which is \<open>\<pi>/2\<close> for a velocity of zero).
\<close>

theorem stationary_stalls:
  assumes "v3_length (velocity s) = 0"
    "\<not> v_y (position (obj (integrate c delta s))) < PLANE_DISTANCE_TO_GROUND c"
  shows "0.8 \<le> stall (step c delta s)"
proof -
  from assms(1) have "velocity s = vec 0 0 0" by (simp add: v3_length_zero_iff)
  then have "stall (integrate c delta s) = 1"
    using assms(1) by (simp add: integrate_stall tickBasis_rest aoa_rest stallIndex_rest)
  with assms(2) show ?thesis
    by (simp add: step_def wrapAround_frame avoidGroundCrashes_def)
qed

subsection \<open>Touching down\<close>

lemma yaw_quat:
  assumes "a * a + b * b = 1"
  defines "q \<equiv> q_setFromRotationMatrix
     (m4_identity\<lparr>te0 := b, te4 := 0, te8 := a, te1 := 0, te5 := 1, te9 := 0,
                  te2 := - a, te6 := 0, te10 := b\<rparr>)"
  shows "q_x q = 0 \<and> q_z q = 0 \<and> q_w q * (q_y q + q_y q) = a \<and> 1 - q_y q * (q_y q + q_y q) = b"
proof (cases "b + 1 + b > 0")
  case True
  define r where "r = sqrt (2 * b + 2)"
  have rpos: "0 < r" using True by (simp add: r_def)
  have rr: "r * r = 2 * b + 2" using True by (simp add: r_def)
  have q: "q = qt 0 (2 * a * (0.5 / r)) 0 (0.25 / (0.5 / r))"
    using True by (simp add: q_def q_setFromRotationMatrix_def m4_identity_def Let_def r_def algebra_simps)
  have aa: "a * a = (1 - b) * (1 + b)" using assms(1) by (simp add: algebra_simps)
  have "a * a / (r * r) = (1 - b) / 2"
    using True by (simp add: rr aa field_simps)
  then have "1 - (a / r) * (a / r) * 2 = b" by (simp add: field_simps)
  then show ?thesis using rpos by (simp add: q field_simps)
next
  case False
  have b1: "b < 1" using False by simp
  define r where "r = sqrt (2 - 2 * b)"
  have rpos: "0 < r" using b1 by (simp add: r_def)
  have rr: "r * r = 2 - 2 * b" using b1 by (simp add: r_def)
  have q: "q = qt 0 (0.25 * (2 * r)) 0 (2 * a / (2 * r))"
    using False b1 by (simp add: q_def q_setFromRotationMatrix_def m4_identity_def Let_def r_def algebra_simps)
  have "1 - (r / 2) * (r / 2) * 2 = b" by (simp add: rr field_simps)
  then show ?thesis using rpos by (simp add: q field_simps)
qed


lemma lookAt_horizontal:
  assumes "a * a + b * b = 1" and that: "0 < k"
  shows "m4_lookAt m4_identity (v3_add (vec (k * a) 0 (k * b)) p) p (vec 0 1 0) =
     m4_identity\<lparr>te0 := b, te4 := 0, te8 := a, te1 := 0, te5 := 1, te9 := 0,
                 te2 := - a, te6 := 0, te10 := b\<rparr>"
proof -
  have len: "sqrt (k * a * (k * a) + k * b * (k * b)) = k"
  proof -
    have "k * a * (k * a) + k * b * (k * b) = k * k * (a * a + b * b)" by (simp add: algebra_simps)
    then show ?thesis using assms by simp
  qed
  have z0: "v3_sub (v3_add (vec (k * a) 0 (k * b)) p) p = vec (k * a) 0 (k * b)"
    by (simp add: v3_sub_def v3_add_def)
  have nz: "v3_lengthSq (vec (k * a) 0 (k * b)) \<noteq> 0"
  proof -
    have "v3_lengthSq (vec (k * a) 0 (k * b)) = k * k * (a * a + b * b)"
      by (simp add: v3_lengthSq_def algebra_simps)
    then show ?thesis using assms by simp
  qed
  have z1: "v3_normalize (vec (k * a) 0 (k * b)) = vec a 0 b"
    using that by (simp add: v3_normalize_def v3_length_def len v3_divideScalar_def v3_multiplyScalar_def)
  have x1: "v3_cross (vec 0 1 0) (vec a 0 b) = vec b 0 (- a)"
    by (simp add: v3_cross_def)
  have ba: "b * b + a * a = 1" using assms by (simp add: add.commute)
  have x1n: "v3_lengthSq (vec b 0 (- a)) \<noteq> 0" by (simp add: v3_lengthSq_def ba)
  have x2: "v3_normalize (vec b 0 (- a)) = vec b 0 (- a)"
    by (simp add: v3_normalize_def v3_length_def ba v3_divideScalar_def v3_multiplyScalar_def)
  have y2: "v3_cross (vec a 0 b) (vec b 0 (- a)) = vec 0 1 0"
    using assms by (simp add: v3_cross_def add.commute)
  show ?thesis
    by (simp add: m4_lookAt_def Let_def z0 nz z1 x1 x1n x2 y2)
qed

lemma getWorldDirection_yaw:
  assumes "q_x q = 0" "q_z q = 0" "q_w q * (q_y q + q_y q) = a" "1 - q_y q * (q_y q + q_y q) = b"
    "a * a + b * b = 1"
  shows "o3_getWorldDirection (ob\<lparr>quaternion := q\<rparr>) = vec a 0 b"
  using assms
  by (simp add: o3_getWorldDirection_def o3_matrixWorld_def m4_compose_def Let_def
      v3_normalize_def v3_length_def v3_divideScalar_def v3_multiplyScalar_def)

lemma lookAt_level:
  assumes "v_x d \<noteq> 0 \<or> v_z d \<noteq> 0"
  shows "o3_getWorldDirection (o3_lookAt ob (v3_add (v3_setY d 0) (position ob)))
       = v3_normalize (v3_setY d 0)"
proof -
  define k where "k = sqrt (v_x d * v_x d + v_z d * v_z d)"
  define a where "a = v_x d / k"
  define b where "b = v_z d / k"
  have "v_x d * v_x d + v_z d * v_z d \<noteq> 0"
    using assms by (smt (verit) mult_eq_0_iff zero_le_square add_nonneg_eq_0_iff)
  moreover have "0 \<le> v_x d * v_x d + v_z d * v_z d" by simp
  ultimately have pos: "0 < v_x d * v_x d + v_z d * v_z d" by linarith
  then have kpos: "0 < k" by (simp add: k_def)
  have kk: "k * k = v_x d * v_x d + v_z d * v_z d" using pos by (simp add: k_def)
  have ab: "a * a + b * b = 1"
  proof -
    have "a * a + b * b = (v_x d * v_x d + v_z d * v_z d) / (k * k)"
      by (simp add: a_def b_def add_divide_distrib)
    then show ?thesis using kpos by (simp add: kk[symmetric])
  qed
  have dh: "v3_setY d 0 = vec (k * a) 0 (k * b)"
    using kpos by (simp add: v3_setY_def a_def b_def)
  have norm: "v3_normalize (v3_setY d 0) = vec a 0 b"
    using kpos by (simp add: v3_normalize_def v3_length_def v3_setY_def k_def[symmetric]
        v3_divideScalar_def v3_multiplyScalar_def a_def b_def)
  have pos_ob: "vec (te12 (o3_matrixWorld ob)) (te13 (o3_matrixWorld ob)) (te14 (o3_matrixWorld ob))
      = position ob"
    by (simp add: o3_matrixWorld_def m4_compose_def Let_def)
  have look: "o3_lookAt ob (v3_add (v3_setY d 0) (position ob)) =
      ob\<lparr>quaternion := q_setFromRotationMatrix
         (m4_identity\<lparr>te0 := b, te4 := 0, te8 := a, te1 := 0, te5 := 1, te9 := 0,
                      te2 := - a, te6 := 0, te10 := b\<rparr>)\<rparr>"
    by (simp add: o3_lookAt_def Let_def pos_ob dh lookAt_horizontal[OF ab kpos])
  show ?thesis
    unfolding look norm
    using yaw_quat[OF ab] by (intro getWorldDirection_yaw) (simp_all add: ab)
qed


lemma getWorldDirection_position:
  "o3_getWorldDirection (ob\<lparr>position := p\<rparr>) = o3_getWorldDirection ob"
  by (simp add: o3_getWorldDirection_def o3_matrixWorld_def m4_compose_def Let_def)

lemma getWorldDirection_quaternion:
  "quaternion ob = quaternion ob' \<Longrightarrow> o3_getWorldDirection ob = o3_getWorldDirection ob'"
  by (simp add: o3_getWorldDirection_def o3_matrixWorld_def m4_compose_def Let_def)

lemma m4_lookAt_translate:
  "m4_lookAt m (v3_add t p) p u = m4_lookAt m t (vec 0 0 0) u"
proof -
  have "v3_sub (v3_add t p) p = v3_sub t (vec 0 0 0)"
    by (simp add: v3_sub_def v3_add_def)
  then show ?thesis
    unfolding m4_lookAt_def by (simp only:)
qed

lemma lookAt_quaternion:
  "quaternion (o3_lookAt ob (v3_add t (position ob)))
     = q_setFromRotationMatrix (m4_lookAt m4_identity t (vec 0 0 0) (vec 0 1 0))"
proof -
  have pos_ob: "vec (te12 (o3_matrixWorld ob)) (te13 (o3_matrixWorld ob)) (te14 (o3_matrixWorld ob))
      = position ob"
    by (simp add: o3_matrixWorld_def m4_compose_def Let_def)
  show ?thesis
    by (simp add: o3_lookAt_def Let_def pos_ob m4_lookAt_translate)
qed

lemma lookAt_position:
  "quaternion (o3_lookAt (ob\<lparr>position := p\<rparr>) (v3_add t p))
     = quaternion (o3_lookAt ob (v3_add t (position ob)))"
  using lookAt_quaternion[of "ob\<lparr>position := p\<rparr>" t] lookAt_quaternion[of ob t]
  by simp

lemma levelHeading_position:
  "quaternion (levelHeading (ob\<lparr>position := p\<rparr>)) = quaternion (levelHeading ob)"
  by (simp add: levelHeading_def Let_def getWorldDirection_position lookAt_position)

lemma levelHeading_direction:
  assumes "v_y (o3_getWorldDirection ob) < 0"
    "v_x (o3_getWorldDirection ob) \<noteq> 0 \<or> v_z (o3_getWorldDirection ob) \<noteq> 0"
  shows "o3_getWorldDirection (levelHeading ob) = v3_normalize (v3_setY (o3_getWorldDirection ob) 0)"
  using assms by (simp add: levelHeading_def Let_def lookAt_level)

lemma levelHeading_idle: "0 \<le> v_y (o3_getWorldDirection ob) \<Longrightarrow> levelHeading ob = ob"
  by (simp add: levelHeading_def Let_def)

lemma step_grounded:
  assumes "v_y (position (obj (integrate c d s))) < PLANE_DISTANCE_TO_GROUND c"
  shows "quaternion (obj (step c d s)) = quaternion (levelHeading (obj (integrate c d s)))"
    "velocity (step c d s) = v3_setY (velocity (integrate c d s)) 0"
    "stall (step c d s) = - 1" "landed (step c d s)"
  using assms
  by (simp_all add: step_def wrapAround_frame avoidGroundCrashes_def Let_def levelHeading_position)

text \<open>
  For an orientation of unit length the world direction of the object is its \<open>+z\<close> axis turned
  by the orientation: the nose, when \<open>FORWARD\<close> is \<open>(0, 0, 1)\<close>.
\<close>

lemma worldDirection_forward:
  assumes "q_x q * q_x q + q_y q * q_y q + q_z q * q_z q + q_w q * q_w q = 1"
    "quaternion ob = q"
  shows "o3_getWorldDirection ob = v3_applyQuaternion (vec 0 0 1) q"
proof -
  define x y z w where "x = q_x q" "y = q_y q" "z = q_z q" "w = q_w q"
  have u: "x * x + y * y + z * z + w * w = 1" using assms(1) by (simp add: x_y_z_w_def)
  have e: "1 - (x * (x + x) + y * (y + y)) = w * w + z * z - x * x - y * y"
    using u by (simp add: algebra_simps)
  have "(x * (z + z) + w * (y + y)) * (x * (z + z) + w * (y + y))
      + (y * (z + z) - w * (x + x)) * (y * (z + z) - w * (x + x))
      + (w * w + z * z - x * x - y * y) * (w * w + z * z - x * x - y * y)
      = (x * x + y * y + z * z + w * w) * (x * x + y * y + z * z + w * w)"
    by (simp add: algebra_simps)
  then have len: "sqrt ((x * (z + z) + w * (y + y)) * (x * (z + z) + w * (y + y))
      + (y * (z + z) - w * (x + x)) * (y * (z + z) - w * (x + x))
      + (1 - (x * (x + x) + y * (y + y))) * (1 - (x * (x + x) + y * (y + y)))) = 1"
    unfolding e by (simp add: u)
  have "o3_getWorldDirection ob
      = vec (x * (z + z) + w * (y + y)) (y * (z + z) - w * (x + x)) (1 - (x * (x + x) + y * (y + y)))"
    using len
    by (simp add: o3_getWorldDirection_def o3_matrixWorld_def m4_compose_def Let_def assms(2)
        v3_normalize_def v3_length_def v3_divideScalar_def v3_multiplyScalar_def x_y_z_w_def)
  also have "\<dots> = v3_applyQuaternion (vec 0 0 1) q"
    unfolding e
    by (simp add: v3_applyQuaternion_def Let_def x_y_z_w_def algebra_simps)
  finally show ?thesis .
qed



lemma integrate_quaternion: "quaternion (obj (integrate c d s)) = quaternion (obj (accelerate c d s))"
  by (simp add: integrate_def applyVelocity_frame)

lemma basis_nose_down:
  "tickBasis exampleDefs (atRest (qt (5 / 13) 0 0 (12 / 13)) p ld st) =
     \<lparr>forward = vec 0 (- (120 / 169)) (119 / 169), up = vec 0 (119 / 169) (120 / 169),
      right = vec 1 0 0, prjForward = vec 0 0 (119 / 169), velocityUnit = vec 0 0 0\<rparr>"
  by (simp add: tickBasis_def exampleDefs_def atRest_def v3_applyQuaternion_def Let_def v3_setY_def)

lemma nose_down_wings:
  "bankIndicator (tickBasis exampleDefs (atRest (qt (5 / 13) 0 0 (12 / 13)) p ld st)) = vec 0 0 0"
  by (simp add: basis_nose_down bankIndicator_def v3_projectOnPlane_def v3_projectOnVector_def
      v3_setY_def v3_sub_def v3_lengthSq_def v3_dot_def v3_multiplyScalar_def)

lemma accelerate_nose_down:
  "accelerate exampleDefs d hoveringNoseDown =
     hoveringNoseDown\<lparr>stall := 1,
       velocity := vec 0 (- (2105089 / 142805) * d) (139944 / 28561 * d)\<rparr>"
proof -
  have "accelerate exampleDefs d hoveringNoseDown =
     hoveringNoseDown\<lparr>stall := 1,
       velocity := v3_addScaledVector (vec 0 0 0)
          (roundToZero (EPSILON exampleDefs)
             (v3_divideScalar (weightForce exampleDefs (tickBasis exampleDefs hoveringNoseDown) 0) DRY_MASS)) d\<rparr>"
    unfolding hoveringNoseDown_def
    by (intro accelerate_rest_airborne) (simp_all add: example_eps atRest_sel nose_down_wings)
  moreover have "roundToZero (EPSILON exampleDefs)
             (v3_divideScalar (weightForce exampleDefs (tickBasis exampleDefs hoveringNoseDown) 0) DRY_MASS)
      = vec 0 (- (2105089 / 142805)) (139944 / 28561)"
    unfolding hoveringNoseDown_def weight_rest basis_nose_down
    by (simp add: v3_divideScalar_def v3_multiplyScalar_def roundToZero_def isZero_def
        exampleDefs_def DRY_MASS_def GRAVITY_def)
  ultimately show ?thesis
    by (simp add: v3_addScaledVector_def)
qed


lemma direction_nose_down:
  "o3_getWorldDirection (obj hoveringNoseDown) = vec 0 (- (120 / 169)) (119 / 169)"
  by (simp add: hoveringNoseDown_def atRest_def o3_getWorldDirection_def o3_matrixWorld_def
      m4_compose_def Let_def v3_normalize_def v3_length_def v3_divideScalar_def
      v3_multiplyScalar_def)

lemma direction_level: "o3_getWorldDirection (obj hovering) = vec 0 0 1"
  by (simp add: hovering_def atRest_def o3_getWorldDirection_def o3_matrixWorld_def
      m4_compose_def Let_def v3_normalize_def v3_length_def v3_divideScalar_def
      v3_multiplyScalar_def)


subsection \<open>Pitch control\<close>

text \<open>
  \<^verbatim>\<open>rotateX\<close> turns the orientation about the body's own \<open>x\<close> axis: the direction of that
  axis in the world is the same before and after.
\<close>

lemma rotateX_axis:
  "v3_applyQuaternion (vec 1 0 0) (quaternion (o3_rotateX ob a))
     = v3_applyQuaternion (vec 1 0 0) (quaternion ob)"
proof -
  define s where "s = sin (a / 2)"
  define c where "c = cos (a / 2)"
  have sc: "s * s + c * c = 1" by (simp add: s_def c_def power2_eq_square[symmetric])
  have q: "quaternion (o3_rotateX ob a) = q_multiplyQuaternions (quaternion ob) (qt s 0 0 c)"
    by (simp add: o3_rotateX_def o3_rotateOnAxis_def q_multiply_def q_setFromAxisAngle_def
        Let_def s_def c_def)
  have cc: "c * c = 1 - s * s" using sc by simp
  show ?thesis
    unfolding q
    apply (simp add: v3_applyQuaternion_def q_multiplyQuaternions_def Let_def)
    apply (intro conjI)
    using sc apply algebra
    using sc apply algebra
    using sc apply algebra
    done
qed

text \<open>
  Claim C1, as amended. In every tick the pitch sub-step, which acts on the state left by the
  roll sub-step, rotates the aircraft about its body \<open>x\<close> axis (\<^verbatim>\<open>rotateX\<close>) by
  \<open>- pitch * PITCH_RATE * delta\<close> exactly when the pitch input is not zero (by \<^verbatim>\<open>isZero\<close>), it is
  not the case that the aircraft is landed and \<open>pitch < 0\<close>, and one of these holds: \<open>stall < 0\<close>;
  \<open>pitch < 0\<close> and \<open>up.y > 0\<close>; \<open>pitch > 0\<close> and \<open>up.y < 0\<close>. Otherwise it leaves the state as it is.
  In particular, with \<open>stall \<ge> 0\<close> and \<open>up.y > 0\<close> an input \<open>pitch > 0\<close> leaves the orientation
  unchanged, while an input \<open>pitch < 0\<close> rotates it unless the aircraft is landed.
\<close>

theorem pitch_gate:
  "let b = tickBasis c s; s1 = rollControl c delta s;
       rotated = s1\<lparr>obj := o3_rotateX (obj s1) (- pitch s * PITCH_RATE c * delta)\<rparr>
   in pitchControl c delta b s1 =
        (if \<not> isZero (EPSILON c) (pitch s)
            \<and> \<not> (landed s \<and> pitch s < 0)
            \<and> (stall s < 0 \<or> (pitch s < 0 \<and> 0 < v_y (up b)) \<or> (0 < pitch s \<and> v_y (up b) < 0))
         then rotated else s1)
      \<and> (0 \<le> stall s \<and> 0 < v_y (up b) \<and> 0 < pitch s \<longrightarrow> pitchControl c delta b s1 = s1)
      \<and> (0 \<le> stall s \<and> 0 < v_y (up b) \<and> pitch s < 0 \<and> \<not> landed s
             \<and> \<not> isZero (EPSILON c) (pitch s)
           \<longrightarrow> pitchControl c delta b s1 = rotated)"
  by (auto simp add: pitchControl_def Let_def rollControl_frame)

lemma basis_nose_up:
  "tickBasis exampleDefs ((atRest (qt (- (40 / 401)) 0 0 (399 / 401)) p ld st)\<lparr>pitch := k\<rparr>) =
     \<lparr>forward = vec 0 (31920 / 160801) (157601 / 160801),
      up = vec 0 (157601 / 160801) (- (31920 / 160801)),
      right = vec 1 0 0, prjForward = vec 0 0 (157601 / 160801), velocityUnit = vec 0 0 0\<rparr>"
  by (simp add: tickBasis_def exampleDefs_def atRest_def v3_applyQuaternion_def Let_def v3_setY_def)

lemma sin_half_pos: "0 < sin (1 / 2 :: real)"
proof -
  have "(1 / 2 :: real) < pi" using pi_ge_two by simp
  then show ?thesis by (intro sin_gt_zero) simp_all
qed

lemma roll_idle: "0 < EPSILON c \<Longrightarrow> roll s = 0 \<Longrightarrow> rollControl c d s = s"
  by (simp add: rollControl_def)

text \<open>
  Stalling upright with the nose above the horizon: the pulled stick does nothing, the pushed
  stick rotates by one radian in a tick of one second.
\<close>

theorem pitch_gate_witness:
  "0 \<le> stall stallingPulled \<and> 0 < v_y (up (tickBasis exampleDefs stallingPulled))
   \<and> 0 < pitch stallingPulled
   \<and> pitchControl exampleDefs 1 (tickBasis exampleDefs stallingPulled)
        (rollControl exampleDefs 1 stallingPulled) = stallingPulled
   \<and> 0 \<le> stall stallingPushed \<and> 0 < v_y (up (tickBasis exampleDefs stallingPushed))
   \<and> pitch stallingPushed < 0 \<and> \<not> landed stallingPushed
   \<and> \<not> isZero (EPSILON exampleDefs) (pitch stallingPushed)
   \<and> pitchControl exampleDefs 1 (tickBasis exampleDefs stallingPushed)
        (rollControl exampleDefs 1 stallingPushed)
        = stallingPushed\<lparr>obj := o3_rotateX (obj stallingPushed) 1\<rparr>"
proof -
  have a: "0 \<le> stall stallingPulled \<and> 0 < v_y (up (tickBasis exampleDefs stallingPulled))
      \<and> 0 < pitch stallingPulled"
    unfolding stallingPulled_def basis_nose_up by (simp add: atRest_def)
  have b: "0 \<le> stall stallingPushed \<and> 0 < v_y (up (tickBasis exampleDefs stallingPushed))
      \<and> pitch stallingPushed < 0 \<and> \<not> landed stallingPushed
      \<and> \<not> isZero (EPSILON exampleDefs) (pitch stallingPushed)"
    unfolding stallingPushed_def basis_nose_up by (simp add: atRest_def isZero_def exampleDefs_def)
  have r: "- (pitch stallingPushed * PITCH_RATE exampleDefs) = 1"
    by (simp add: stallingPushed_def atRest_def exampleDefs_def)
  have r1: "rollControl exampleDefs 1 stallingPulled = stallingPulled"
    by (intro roll_idle) (simp_all add: example_eps stallingPulled_def atRest_def)
  have r2: "rollControl exampleDefs 1 stallingPushed = stallingPushed"
    by (intro roll_idle) (simp_all add: example_eps stallingPushed_def atRest_def)
  have A: "pitchControl exampleDefs 1 (tickBasis exampleDefs stallingPulled)
        (rollControl exampleDefs 1 stallingPulled) = stallingPulled"
    using pitch_gate[of exampleDefs stallingPulled 1] a by (simp add: Let_def r1)
  have B: "pitchControl exampleDefs 1 (tickBasis exampleDefs stallingPushed)
        (rollControl exampleDefs 1 stallingPushed)
        = stallingPushed\<lparr>obj := o3_rotateX (obj stallingPushed) 1\<rparr>"
    using pitch_gate[of exampleDefs stallingPushed 1] b by (simp add: Let_def r2 r)
  show ?thesis using a b A B by simp
qed

text \<open>
  Claim C1 as stated fails in its last part: with \<open>stall \<ge> 0\<close>, the aircraft upright and its
  nose above the horizon, the input \<open>pitch < 0\<close> does change the orientation.
\<close>

theorem stall_gated_pitch_counterexample:
  "0 \<le> stall stallingPushed
   \<and> 0 < v_y (up (tickBasis exampleDefs stallingPushed))
   \<and> 0 < v_y (forward (tickBasis exampleDefs stallingPushed))
   \<and> pitch stallingPushed < 0
   \<and> quaternion (obj (pitchControl exampleDefs 1 (tickBasis exampleDefs stallingPushed) stallingPushed))
        \<noteq> quaternion (obj stallingPushed)"
proof -
  have b: "0 \<le> stall stallingPushed \<and> 0 < v_y (up (tickBasis exampleDefs stallingPushed))
      \<and> 0 < v_y (forward (tickBasis exampleDefs stallingPushed))
      \<and> pitch stallingPushed < 0"
    unfolding stallingPushed_def basis_nose_up by (simp add: atRest_def)
  let ?q = "quaternion (obj (pitchControl exampleDefs 1 (tickBasis exampleDefs stallingPushed) stallingPushed))"
  have qx: "q_x ?q = (399 * sin (1 / 2) - 40 * cos (1 / 2)) / 401"
    unfolding stallingPushed_def basis_nose_up
    by (simp add: pitchControl_def atRest_def isZero_def exampleDefs_def o3_rotateX_def
        o3_rotateOnAxis_def q_multiply_def q_multiplyQuaternions_def q_setFromAxisAngle_def Let_def)
  have qw: "q_w ?q = (399 * cos (1 / 2) + 40 * sin (1 / 2)) / 401"
    unfolding stallingPushed_def basis_nose_up
    by (simp add: pitchControl_def atRest_def isZero_def exampleDefs_def o3_rotateX_def
        o3_rotateOnAxis_def q_multiply_def q_multiplyQuaternions_def q_setFromAxisAngle_def Let_def)
  have old: "quaternion (obj stallingPushed) = qt (- (40 / 401)) 0 0 (399 / 401)"
    by (simp add: stallingPushed_def atRest_def)
  have "?q \<noteq> quaternion (obj stallingPushed)"
  proof
    assume eq: "?q = quaternion (obj stallingPushed)"
    have "q_x ?q = - 40 / 401" "q_w ?q = 399 / 401" by (simp_all add: eq old)
    then have "399 * sin (1 / 2 :: real) - 40 * cos (1 / 2) = - 40"
      and "399 * cos (1 / 2 :: real) + 40 * sin (1 / 2) = 399"
      by (simp_all add: qx qw)
    then have "sin (1 / 2 :: real) = 0" by linarith
    with sin_half_pos show False by simp
  qed
  with b show ?thesis by simp
qed


lemma accelerate_parked:
  assumes "0 < EPSILON c" "0 \<le> d" "roll s = 0" "pitch s = 0" "yaw s = 0" "throttle s = 0"
    "velocity s = vec 0 0 0" "landed s"
    "v3_length (v3_setY (weightForce c (tickBasis c s) 0) 0) < GROUND_FRICTION_STATIC * (DRY_MASS * GRAVITY)"
    "0 \<le> v_y (UP c)"
  shows "accelerate c d s = (autoYaw c d (tickBasis c s) s)\<lparr>stall := 1\<rparr>"
proof -
  let ?b = "tickBasis c s"
  let ?W = "weightForce c ?b 0"
  let ?s1 = "autoYaw c d ?b s"
  let ?s' = "?s1\<lparr>stall := 1\<rparr>"
  have rot: "rotationControls c d ?b 0 s = ?s1"
    using assms
    by (simp add: rotationControls_def rollControl_def pitchControl_def yawControl_def
        pointDownWhenStalling_def autoYaw_frame)
  have "0 \<le> v_y (forward ?b) * v_y (forward ?b)" by simp
  then have "- v_y (UP c) - v_y (forward ?b) * v_y (forward ?b) \<le> 0"
    using assms(10) by linarith
  then have wy: "v_y ?W \<le> 0"
    by (simp add: weight_rest DRY_MASS_def GRAVITY_def)
  have ts: "timestep c d ?W (frictionForce c ?b 0 ?W ?s') ?s' = ?s'"
    using assms wy by (intro timestep_rest_landed) (simp_all add: tickBasis_rest autoYaw_frame)
  show ?thesis
    using assms
    by (simp add: accelerate_def Let_def rot tickBasis_rest aoa_rest drag_rest thrust_idle
      stallIndex_rest magic_rest v3_add_def autoYaw_frame ts)
qed

lemma step_parked:
  assumes "0 < EPSILON c" "0 \<le> d" "roll s = 0" "pitch s = 0" "yaw s = 0" "throttle s = 0"
    "velocity s = vec 0 0 0" "landed s"
    "v_y (position (obj s)) = PLANE_DISTANCE_TO_GROUND c"
    "v3_length (v3_setY (weightForce c (tickBasis c s) 0) 0) < GROUND_FRICTION_STATIC * (DRY_MASS * GRAVITY)"
    "0 \<le> v_y (UP c)"
    "\<bar>v_x (position (obj s))\<bar> \<le> terrainHalfSize c" "\<bar>v_z (position (obj s))\<bar> \<le> terrainHalfSize c"
  shows "step c d s = (autoYaw c d (tickBasis c s) s)\<lparr>stall := 1\<rparr>"
proof -
  let ?s' = "(autoYaw c d (tickBasis c s) s)\<lparr>stall := 1\<rparr>"
  have ac: "accelerate c d s = ?s'"
    using assms by (intro accelerate_parked) simp_all
  have ig: "integrate c d s = ?s'"
    unfolding integrate_def ac
    using assms by (intro applyVelocity_rest) (simp_all add: autoYaw_frame)
  have wp: "wrapPosition (terrainHalfSize c) (position (obj s)) = position (obj s)"
    using assms(12,13) by (intro wrapPosition_inside) auto
  have pos: "position (obj ?s') = position (obj s)" by (simp add: autoYaw_frame)
  have "avoidGroundCrashes c ?s' = ?s'"
    using assms(9) by (simp add: avoidGroundCrashes_def autoYaw_frame)
  then show ?thesis
    by (simp add: step_def ig wrapAround_def autoYaw_frame wp)
qed

subsection \<open>Automatic yaw\<close>

lemma integrate_parked:
  assumes "0 < EPSILON c" "0 \<le> d" "roll s = 0" "pitch s = 0" "yaw s = 0" "throttle s = 0"
    "velocity s = vec 0 0 0" "landed s"
    "v_y (position (obj s)) \<le> PLANE_DISTANCE_TO_GROUND c"
    "v3_length (v3_setY (weightForce c (tickBasis c s) 0) 0) < GROUND_FRICTION_STATIC * (DRY_MASS * GRAVITY)"
    "0 \<le> v_y (UP c)"
  shows "integrate c d s = (autoYaw c d (tickBasis c s) s)\<lparr>stall := 1\<rparr>"
proof -
  let ?s' = "(autoYaw c d (tickBasis c s) s)\<lparr>stall := 1\<rparr>"
  have ac: "accelerate c d s = ?s'"
    using assms by (intro accelerate_parked) simp_all
  show ?thesis
    unfolding integrate_def ac
    using assms by (intro applyVelocity_rest) (simp_all add: autoYaw_frame)
qed

lemma length_x_axis: "v3_length (vec a 0 0) = \<bar>a\<bar>"
  by (simp add: v3_length_def)

lemma length_z_axis: "v3_length (vec 0 0 a) = \<bar>a\<bar>"
  by (simp add: v3_length_def)

text \<open>
  Claim C10. The automatic yaw of a banked aircraft is guarded by the attitude alone. Whenever
  \<open>forward.y\<close> lies strictly between \<open>-0.99\<close> and \<open>0.99\<close>, it rotates the orientation about the
  world up axis by \<open>sign * |prjUp|\<^sup>2 * |prjForward| * 2 * YAW_RATE * delta\<close>, whatever the landed flag
  and the speed are (and also when the bank indicator \<open>prjUp\<close> is zero, where the angle is
  zero); the manual roll does nothing when landed and the manual yaw nothing at zero speed.
\<close>

theorem auto_yaw_unguarded:
  "let prjUp = bankIndicator b;
       sign = (if v_x (prjForward b) * v_z prjUp - v_z (prjForward b) * v_x prjUp > 0
               then - 1 else 1);
       angle = sign * v3_length prjUp * v3_length prjUp * v3_length (prjForward b)
                 * 2 * YAW_RATE c * delta
   in (- 0.99 < v_y (forward b) \<and> v_y (forward b) < 0.99
        \<longrightarrow> autoYaw c delta b s = s\<lparr>obj := o3_rotateOnWorldAxis (obj s) (UP c) angle\<rparr>)
    \<and> (landed s \<longrightarrow> rollControl c delta s = s)
    \<and> (isZero (EPSILON c) speed \<longrightarrow> yawControl c delta speed s = s)"
  by (simp add: autoYaw_def autoYawAngle_def Let_def rollControl_def yawControl_def)

lemma basis_banked:
  "tickBasis exampleDefs (atRest (qt 0 0 (3 / 5) (4 / 5)) p ld st) =
     \<lparr>forward = vec 0 0 1, up = vec (- (24 / 25)) (7 / 25) 0, right = vec (7 / 25) (24 / 25) 0,
      prjForward = vec 0 0 1, velocityUnit = vec 0 0 0\<rparr>"
  by (simp add: tickBasis_def exampleDefs_def atRest_def v3_applyQuaternion_def Let_def v3_setY_def)

lemma banked_indicator:
  "bankIndicator (tickBasis exampleDefs (atRest (qt 0 0 (3 / 5) (4 / 5)) p ld st)) = vec (- (24 / 25)) 0 0"
  by (simp add: basis_banked bankIndicator_def v3_projectOnPlane_def v3_projectOnVector_def
      v3_setY_def v3_sub_def v3_lengthSq_def v3_dot_def v3_multiplyScalar_def)

lemma banked_residual:
  "v3_length (v3_setY (weightForce exampleDefs (tickBasis exampleDefs (atRest (qt 0 0 (3 / 5) (4 / 5)) p ld st)) 0) 0)
     < GROUND_FRICTION_STATIC * (DRY_MASS * GRAVITY)"
  by (simp add: basis_banked weight_rest v3_setY_def)
     (simp add: exampleDefs_def GROUND_FRICTION_STATIC_def DRY_MASS_def GRAVITY_def)

lemma sin_banked_pos: "0 < sin (576 / 625 :: real)"
proof -
  have "(576 / 625 :: real) < pi" using pi_ge_two by simp
  then show ?thesis by (intro sin_gt_zero) simp_all
qed

text \<open>
  The aircraft parked with one wing down, landed and motionless, is yawed by \<open>-1152/625\<close>
  radians in a tick of one second, and the tick ends with another orientation.
\<close>

theorem auto_yaw_unguarded_witness:
  "- 0.99 < v_y (forward (tickBasis exampleDefs parkedBanked))
   \<and> v_y (forward (tickBasis exampleDefs parkedBanked)) < 0.99
   \<and> landed parkedBanked
   \<and> isZero (EPSILON exampleDefs) (v3_length (velocity parkedBanked))
   \<and> autoYaw exampleDefs 1 (tickBasis exampleDefs parkedBanked) parkedBanked
        = parkedBanked\<lparr>obj := o3_rotateOnWorldAxis (obj parkedBanked) (vec 0 1 0) (- (1152 / 625))\<rparr>
   \<and> rollControl exampleDefs 1 parkedBanked = parkedBanked
   \<and> yawControl exampleDefs 1 (v3_length (velocity parkedBanked)) parkedBanked = parkedBanked
   \<and> q_x (quaternion (obj (step exampleDefs 1 parkedBanked))) < 0
   \<and> q_x (quaternion (obj parkedBanked)) = 0"
proof -
  let ?b = "tickBasis exampleDefs parkedBanked"
  have h: "- 0.99 < v_y (forward ?b) \<and> v_y (forward ?b) < 0.99 \<and> landed parkedBanked
      \<and> isZero (EPSILON exampleDefs) (v3_length (velocity parkedBanked))"
    unfolding parkedBanked_def basis_banked by (simp add: atRest_sel example_eps)
  have ang: "(if v_x (prjForward ?b) * v_z (bankIndicator ?b) - v_z (prjForward ?b) * v_x (bankIndicator ?b) > 0
               then - 1 else 1) * v3_length (bankIndicator ?b) * v3_length (bankIndicator ?b)
              * v3_length (prjForward ?b) * 2 * YAW_RATE exampleDefs * 1 = - (1152 / 625)"
    apply (simp only: parkedBanked_def banked_indicator)
    apply (simp only: basis_banked)
    apply (simp add: length_x_axis length_z_axis exampleDefs_def)
    done
  have up: "UP exampleDefs = vec 0 1 0" by (simp add: exampleDefs_def)
  have A: "autoYaw exampleDefs 1 ?b parkedBanked
        = parkedBanked\<lparr>obj := o3_rotateOnWorldAxis (obj parkedBanked) (vec 0 1 0) (- (1152 / 625))\<rparr>
     \<and> rollControl exampleDefs 1 parkedBanked = parkedBanked
     \<and> yawControl exampleDefs 1 (v3_length (velocity parkedBanked)) parkedBanked = parkedBanked"
    using auto_yaw_unguarded[of ?b exampleDefs 1 parkedBanked "v3_length (velocity parkedBanked)"] h
    by (simp only: Let_def ang up)
  have st: "step exampleDefs 1 parkedBanked = (autoYaw exampleDefs 1 ?b parkedBanked)\<lparr>stall := 1\<rparr>"
    unfolding parkedBanked_def
    by (intro step_parked) (simp_all add: example_eps atRest_sel banked_residual)
  have "q_x (quaternion (obj (step exampleDefs 1 parkedBanked))) = 3 / 5 * sin (- (576 / 625))"
    unfolding st using A
    by (simp add: o3_rotateOnWorldAxis_def q_premultiply_def q_multiplyQuaternions_def
        q_setFromAxisAngle_def Let_def parkedBanked_def atRest_def)
  then have B: "q_x (quaternion (obj (step exampleDefs 1 parkedBanked))) < 0"
    using sin_banked_pos by simp
  have C: "q_x (quaternion (obj parkedBanked)) = 0" by (simp add: parkedBanked_def atRest_def)
  show ?thesis using h A B C by simp
qed

subsection \<open>Parked aircraft\<close>

lemma residual_pitched: "v_x W = 0 \<Longrightarrow> v3_length (v3_setY W 0) = \<bar>v_z W\<bar>"
  by (simp add: v3_length_def v3_setY_def)

lemma basis_parked_nose_up:
  "tickBasis exampleDefs (atRest (qt (- (40 / 401)) 0 0 (399 / 401)) p ld st) =
     \<lparr>forward = vec 0 (31920 / 160801) (157601 / 160801),
      up = vec 0 (157601 / 160801) (- (31920 / 160801)),
      right = vec 1 0 0, prjForward = vec 0 0 (157601 / 160801), velocityUnit = vec 0 0 0\<rparr>"
  by (simp add: tickBasis_def exampleDefs_def atRest_def v3_applyQuaternion_def Let_def v3_setY_def)

lemma nose_up_wings:
  "bankIndicator (tickBasis exampleDefs (atRest (qt (- (40 / 401)) 0 0 (399 / 401)) p ld st)) = vec 0 0 0"
  by (simp add: basis_parked_nose_up bankIndicator_def v3_projectOnPlane_def v3_projectOnVector_def
      v3_setY_def v3_sub_def v3_lengthSq_def v3_dot_def v3_multiplyScalar_def)

lemma nose_up_weight:
  "weightForce exampleDefs (tickBasis exampleDefs (atRest (qt (- (40 / 401)) 0 0 (399 / 401)) p ld st)) 0
     = vec 0 (- (5267666208196000 / 25856961601)) (- (986002288320000 / 25856961601))"
  by (simp add: basis_parked_nose_up weight_rest) (simp add: exampleDefs_def DRY_MASS_def GRAVITY_def)

lemma nose_up_residual:
  "v3_length (v3_setY (weightForce exampleDefs
       (tickBasis exampleDefs (atRest (qt (- (40 / 401)) 0 0 (399 / 401)) p ld st)) 0) 0)
     < GROUND_FRICTION_STATIC * (DRY_MASS * GRAVITY)"
  by (simp add: nose_up_weight residual_pitched)
     (simp add: GROUND_FRICTION_STATIC_def DRY_MASS_def GRAVITY_def)


lemma integrate_parked_nose_up:
  "integrate exampleDefs 1 parkedNoseUp = parkedNoseUp\<lparr>stall := 1\<rparr>"
  unfolding parkedNoseUp_def
  by (intro integrate_rest_landed)
     (simp_all add: example_eps atRest_sel nose_up_wings nose_up_residual)

text \<open>The aircraft parked nose up is motionless, stays at the ground clearance and is stalling.\<close>

theorem stationary_stalls_witness:
  "v3_length (velocity parkedNoseUp) = 0
   \<and> \<not> v_y (position (obj (integrate exampleDefs 1 parkedNoseUp))) < PLANE_DISTANCE_TO_GROUND exampleDefs
   \<and> 0.8 \<le> stall (step exampleDefs 1 parkedNoseUp)"
proof -
  have a: "v3_length (velocity parkedNoseUp) = 0" by (simp add: parkedNoseUp_def atRest_sel)
  have b: "\<not> v_y (position (obj (integrate exampleDefs 1 parkedNoseUp))) < PLANE_DISTANCE_TO_GROUND exampleDefs"
    by (simp add: integrate_parked_nose_up example_eps) (simp add: parkedNoseUp_def atRest_sel)
  show ?thesis using stationary_stalls[OF a b] a b by simp
qed

lemma tickBasis_stall: "tickBasis c (s\<lparr>stall := k\<rparr>) = tickBasis c s"
  by (simp add: tickBasis_def)

lemma parked_ticks:
  assumes "0 < EPSILON c" "0 \<le> d" "roll s = 0" "pitch s = 0" "yaw s = 0" "throttle s = 0"
    "velocity s = vec 0 0 0" "landed s"
    "v_y (position (obj s)) = PLANE_DISTANCE_TO_GROUND c"
    "bankIndicator (tickBasis c s) = vec 0 0 0"
    "v3_length (v3_setY (weightForce c (tickBasis c s) 0) 0) < GROUND_FRICTION_STATIC * (DRY_MASS * GRAVITY)"
    "0 \<le> v_y (UP c)"
    "\<bar>v_x (position (obj s))\<bar> \<le> terrainHalfSize c" "\<bar>v_z (position (obj s))\<bar> \<le> terrainHalfSize c"
  shows "(step c d ^^ n) s = (if n = 0 then s else s\<lparr>stall := 1\<rparr>)"
proof (induction n)
  case 0
  show ?case by simp
next
  case (Suc n)
  have first: "step c d s = s\<lparr>stall := 1\<rparr>"
    using assms by (intro step_rest_landed) simp_all
  have again: "step c d (s\<lparr>stall := 1\<rparr>) = s\<lparr>stall := 1\<rparr>"
    using step_rest_landed[of c d "s\<lparr>stall := 1\<rparr>"] assms
    by (simp add: tickBasis_stall)
  show ?case
    using Suc first again by simp
qed

text \<open>
  Claim C4, as amended. A tick of length \<open>delta \<ge> 0\<close> starts with the aircraft landed, at rest,
  at idle throttle, with roll, pitch and yaw inputs zero, at the ground clearance and inside
  the terrain; its wings are level (the bank indicator \<open>prjUp\<close> is zero) and the horizontal
  part of its weight, the only force left, is below the limit of static friction. Then after
  one call of \<^verbatim>\<open>step\<close>, and after any number \<open>n\<close> of calls, the velocity is zero, the aircraft is
  landed, and position and orientation are as they were. (The tolerance of \<^verbatim>\<open>isZero\<close> is
  positive and the world up axis does not point down.)
\<close>

theorem rest_state_stays:
  assumes "landed s" "velocity s = vec 0 0 0" "throttle s = 0"
    "roll s = 0" "pitch s = 0" "yaw s = 0"
    "v_y (position (obj s)) = PLANE_DISTANCE_TO_GROUND c"
    "bankIndicator (tickBasis c s) = vec 0 0 0"
    "v3_length (v3_setY (weightForce c (tickBasis c s) 0) 0) < GROUND_FRICTION_STATIC * (DRY_MASS * GRAVITY)"
    "\<bar>v_x (position (obj s))\<bar> \<le> terrainHalfSize c" "\<bar>v_z (position (obj s))\<bar> \<le> terrainHalfSize c"
    "0 \<le> delta" "0 < EPSILON c" "0 \<le> v_y (UP c)"
  shows "velocity ((step c delta ^^ n) s) = vec 0 0 0
       \<and> landed ((step c delta ^^ n) s)
       \<and> obj ((step c delta ^^ n) s) = obj s"
proof -
  have "(step c delta ^^ n) s = (if n = 0 then s else s\<lparr>stall := 1\<rparr>)"
    using assms by (intro parked_ticks) simp_all
  then show ?thesis using assms(1,2) by simp
qed

text \<open>
  Parked with the nose 11 degrees up, the aircraft is pulled back by about 38133 N, below the
  58800 N of static friction, and stays where it is for three ticks of a sixtieth of a second.
\<close>

theorem rest_state_stays_witness:
  "landed parkedNoseUp \<and> velocity parkedNoseUp = vec 0 0 0 \<and> throttle parkedNoseUp = 0
   \<and> roll parkedNoseUp = 0 \<and> pitch parkedNoseUp = 0 \<and> yaw parkedNoseUp = 0
   \<and> v_y (position (obj parkedNoseUp)) = PLANE_DISTANCE_TO_GROUND exampleDefs
   \<and> bankIndicator (tickBasis exampleDefs parkedNoseUp) = vec 0 0 0
   \<and> v3_length (v3_setY (weightForce exampleDefs (tickBasis exampleDefs parkedNoseUp) 0) 0)
        = 986002288320000 / 25856961601
   \<and> GROUND_FRICTION_STATIC * (DRY_MASS * GRAVITY) = 58800
   \<and> velocity ((step exampleDefs (1 / 60) ^^ 3) parkedNoseUp) = vec 0 0 0
   \<and> landed ((step exampleDefs (1 / 60) ^^ 3) parkedNoseUp)
   \<and> obj ((step exampleDefs (1 / 60) ^^ 3) parkedNoseUp) = obj parkedNoseUp"
proof -
  have h: "landed parkedNoseUp \<and> velocity parkedNoseUp = vec 0 0 0 \<and> throttle parkedNoseUp = 0
      \<and> roll parkedNoseUp = 0 \<and> pitch parkedNoseUp = 0 \<and> yaw parkedNoseUp = 0
      \<and> v_y (position (obj parkedNoseUp)) = PLANE_DISTANCE_TO_GROUND exampleDefs
      \<and> \<bar>v_x (position (obj parkedNoseUp))\<bar> \<le> terrainHalfSize exampleDefs
      \<and> \<bar>v_z (position (obj parkedNoseUp))\<bar> \<le> terrainHalfSize exampleDefs"
    by (simp add: parkedNoseUp_def atRest_sel example_eps)
  have w: "bankIndicator (tickBasis exampleDefs parkedNoseUp) = vec 0 0 0"
    unfolding parkedNoseUp_def by (rule nose_up_wings)
  have r: "v3_length (v3_setY (weightForce exampleDefs (tickBasis exampleDefs parkedNoseUp) 0) 0)
        < GROUND_FRICTION_STATIC * (DRY_MASS * GRAVITY)"
    unfolding parkedNoseUp_def by (rule nose_up_residual)
  have r': "v3_length (v3_setY (weightForce exampleDefs (tickBasis exampleDefs parkedNoseUp) 0) 0)
        = 986002288320000 / 25856961601"
    unfolding parkedNoseUp_def by (simp add: nose_up_weight residual_pitched)
  have k: "GROUND_FRICTION_STATIC * (DRY_MASS * GRAVITY) = 58800"
    by (simp add: GROUND_FRICTION_STATIC_def DRY_MASS_def GRAVITY_def)
  have "velocity ((step exampleDefs (1 / 60) ^^ 3) parkedNoseUp) = vec 0 0 0
       \<and> landed ((step exampleDefs (1 / 60) ^^ 3) parkedNoseUp)
       \<and> obj ((step exampleDefs (1 / 60) ^^ 3) parkedNoseUp) = obj parkedNoseUp"
    using h w r by (intro rest_state_stays) (simp_all add: example_eps)
  then show ?thesis using h w r' k by simp
qed


lemma basis_nose_high:
  "tickBasis exampleDefs (atRest (qt (- (5 / 13)) 0 0 (12 / 13)) p ld st) =
     \<lparr>forward = vec 0 (120 / 169) (119 / 169), up = vec 0 (119 / 169) (- (120 / 169)),
      right = vec 1 0 0, prjForward = vec 0 0 (119 / 169), velocityUnit = vec 0 0 0\<rparr>"
  by (simp add: tickBasis_def exampleDefs_def atRest_def v3_applyQuaternion_def Let_def v3_setY_def)

lemma nose_high_wings:
  "bankIndicator (tickBasis exampleDefs (atRest (qt (- (5 / 13)) 0 0 (12 / 13)) p ld st)) = vec 0 0 0"
  by (simp add: basis_nose_high bankIndicator_def v3_projectOnPlane_def v3_projectOnVector_def
      v3_setY_def v3_sub_def v3_lengthSq_def v3_dot_def v3_multiplyScalar_def)

lemma nose_high_weight:
  "weightForce exampleDefs (tickBasis exampleDefs (atRest (qt (- (5 / 13)) 0 0 (12 / 13)) p ld st)) 0
     = vec 0 (- (8420356000 / 28561)) (- (2798880000 / 28561))"
  by (simp add: basis_nose_high weight_rest) (simp add: exampleDefs_def DRY_MASS_def GRAVITY_def)

lemma nose_high_friction:
  "frictionForce exampleDefs (tickBasis exampleDefs parkedNoseHigh) 0
     (vec 0 (- (8420356000 / 28561)) (- (2798880000 / 28561))) (parkedNoseHigh\<lparr>stall := 1\<rparr>)
     = vec 0 0 0"
proof -
  have "\<not> v3_length (v3_setY (vec 0 (- (8420356000 / 28561)) (- (2798880000 / 28561))) 0)
          < GROUND_FRICTION_STATIC * (DRY_MASS * GRAVITY)"
    by (simp add: residual_pitched)
       (simp add: GROUND_FRICTION_STATIC_def DRY_MASS_def GRAVITY_def)
  then show ?thesis
    unfolding parkedNoseHigh_def basis_nose_high
    by (simp add: frictionForce_def Let_def atRest_def v3_setY_def v3_negate_def
        v3_multiplyScalar_def)
qed

lemma accelerate_nose_high:
  "accelerate exampleDefs 1 parkedNoseHigh =
     parkedNoseHigh\<lparr>stall := 1, velocity := vec 0 0 (- (139944 / 28561))\<rparr>"
proof -
  have "accelerate exampleDefs 1 parkedNoseHigh =
     (let W = weightForce exampleDefs (tickBasis exampleDefs parkedNoseHigh) 0;
          s' = parkedNoseHigh\<lparr>stall := 1\<rparr>
      in timestep exampleDefs 1 W (frictionForce exampleDefs (tickBasis exampleDefs parkedNoseHigh) 0 W s') s')"
    unfolding parkedNoseHigh_def
    by (intro accelerate_rest) (simp_all add: example_eps atRest_sel nose_high_wings)
  moreover have "weightForce exampleDefs (tickBasis exampleDefs parkedNoseHigh) 0
      = vec 0 (- (8420356000 / 28561)) (- (2798880000 / 28561))"
    unfolding parkedNoseHigh_def by (rule nose_high_weight)
  ultimately show ?thesis
    by (simp add: Let_def nose_high_friction timestep_def v3_add_def v3_divideScalar_def
        v3_multiplyScalar_def roundToZero_def isZero_def v3_addScaledVector_def v3_setY_def
        DRY_MASS_def)
       (simp add: parkedNoseHigh_def atRest_def exampleDefs_def)
qed

text \<open>
  Claim C4 as stated fails: parked with the nose 45 degrees up the aircraft is pulled back by
  about 97996 N, more than static friction holds, and one tick of a second leaves it with the
  velocity \<open>(0, 0, -4.9)\<close> at another position.
\<close>

theorem rest_state_counterexample:
  "landed parkedNoseHigh \<and> velocity parkedNoseHigh = vec 0 0 0 \<and> throttle parkedNoseHigh = 0
   \<and> roll parkedNoseHigh = 0 \<and> pitch parkedNoseHigh = 0 \<and> yaw parkedNoseHigh = 0
   \<and> v_y (position (obj parkedNoseHigh)) = PLANE_DISTANCE_TO_GROUND exampleDefs
   \<and> velocity (step exampleDefs 1 parkedNoseHigh) = vec 0 0 (- (139944 / 28561))
   \<and> position (obj (step exampleDefs 1 parkedNoseHigh)) = vec 0 2 (- (139944 / 28561))
   \<and> position (obj parkedNoseHigh) = vec 0 2 0"
proof -
  have h: "landed parkedNoseHigh \<and> velocity parkedNoseHigh = vec 0 0 0 \<and> throttle parkedNoseHigh = 0
      \<and> roll parkedNoseHigh = 0 \<and> pitch parkedNoseHigh = 0 \<and> yaw parkedNoseHigh = 0
      \<and> v_y (position (obj parkedNoseHigh)) = PLANE_DISTANCE_TO_GROUND exampleDefs
      \<and> position (obj parkedNoseHigh) = vec 0 2 0"
    by (simp add: parkedNoseHigh_def atRest_sel example_eps)
  have ig: "integrate exampleDefs 1 parkedNoseHigh =
      parkedNoseHigh\<lparr>stall := 1, velocity := vec 0 0 (- (139944 / 28561)),
        obj := (obj parkedNoseHigh)\<lparr>position := vec 0 2 (- (139944 / 28561))\<rparr>\<rparr>"
    by (simp add: integrate_def accelerate_nose_high applyVelocity_def Let_def roundToZero_def
      isZero_def v3_addScaledVector_def example_eps)
     (simp add: parkedNoseHigh_def atRest_def)
  have wp: "wrapPosition 25000 (vec 0 2 (- (139944 / 28561))) = vec 0 2 (- (139944 / 28561))"
    by (intro wrapPosition_inside) simp_all
  have "velocity (step exampleDefs 1 parkedNoseHigh) = vec 0 0 (- (139944 / 28561))
      \<and> position (obj (step exampleDefs 1 parkedNoseHigh)) = vec 0 2 (- (139944 / 28561))"
    by (simp add: step_def ig avoidGroundCrashes_def example_eps wrapAround_def wp)
  with h show ?thesis by (simp add: example_eps)
qed

section \<open>Properties of the tick on JavaScript numbers\<close>

subsection \<open>Comparisons, wrap and clamp\<close>

lemma js_vec_sel [simp]:
  "j_x (js_vec a b c) = a" "j_y (js_vec a b c) = b" "j_z (js_vec a b c) = c"
  by (simp_all add: js_vec_def)

lemma js_lt_irrefl [simp]: "\<not> js_lt a a"
  by (cases a) simp_all

lemma js_lt_NaN [simp]: "\<not> js_lt NaN a" "\<not> js_lt a NaN"
  by (cases a; simp)+

lemma js_lt_asym: "js_lt a b \<Longrightarrow> \<not> js_lt b a"
  by (cases a; cases b; simp)

lemma js_between:
  "\<not> js_lt y (Finite T) \<Longrightarrow> \<not> js_lt (Finite T) y \<Longrightarrow> y = Finite T \<or> y = NaN"
  by (cases y) simp_all

lemma js_wrapPosition_x:
  "js_gt (j_x p) h \<Longrightarrow> j_x (js_wrapPosition h p) = js_neg h"
  "js_le (Finite 0) h \<Longrightarrow> js_lt (j_x p) (js_neg h) \<Longrightarrow> j_x (js_wrapPosition h p) = h"
  "js_le (Finite 0) h \<Longrightarrow> j_x p \<noteq> NaN
     \<Longrightarrow> js_le (js_neg h) (j_x (js_wrapPosition h p)) \<and> js_le (j_x (js_wrapPosition h p)) h"
  "j_x p = NaN \<Longrightarrow> j_x (js_wrapPosition h p) = NaN"
  by (cases "j_x p"; cases h; simp add: js_wrapPosition_def Let_def js_gt_def; fail)+

lemma js_wrapPosition_z:
  "js_gt (j_z p) h \<Longrightarrow> j_z (js_wrapPosition h p) = js_neg h"
  "js_le (Finite 0) h \<Longrightarrow> js_lt (j_z p) (js_neg h) \<Longrightarrow> j_z (js_wrapPosition h p) = h"
  "js_le (Finite 0) h \<Longrightarrow> j_z p \<noteq> NaN
     \<Longrightarrow> js_le (js_neg h) (j_z (js_wrapPosition h p)) \<and> js_le (j_z (js_wrapPosition h p)) h"
  "j_z p = NaN \<Longrightarrow> j_z (js_wrapPosition h p) = NaN"
  by (cases "j_z p"; cases h; simp add: js_wrapPosition_def Let_def js_gt_def; fail)+

lemma js_wrapPosition_y: "j_y (js_wrapPosition h p) = j_y p"
  by (simp add: js_wrapPosition_def Let_def)

lemma js_clamp_range:
  "(js_le (Finite (- 1)) (js_neg (js_clamp x (Finite (- 1)) (Finite 1)))
      \<and> js_le (js_neg (js_clamp x (Finite (- 1)) (Finite 1))) (Finite 1))
   \<or> js_neg (js_clamp x (Finite (- 1)) (Finite 1)) = NaN"
  by (cases x) (simp_all add: js_clamp_def)

lemma js_clamp_NaN: "(js_neg (js_clamp x lo hi) = NaN) = (js_clamp x lo hi = NaN)"
  by (cases "js_clamp x lo hi") simp_all

lemma js_clamp_NaN_iff: "(js_clamp x (Finite (- 1)) (Finite 1) = NaN) = (x = NaN)"
  by (cases x) (simp_all add: js_clamp_def)

subsection \<open>What the end of the tick does to each field\<close>

lemma js_beginTick_keeps:
  "js_landed (js_beginTick m hr t) = js_landed t"
  "js_position (js_beginTick m hr t) = js_position t"
  "js_throttle (js_beginTick m hr t) = js_throttle t"
  "js_velocity (js_beginTick m hr t) = h_velocity hr"
  "js_stall (js_beginTick m hr t) =
     js_stallIndex m (js_length (ar_round m) (js_velocity t))
       (js_airDensity m (j_y (js_position t))) (h_forwardY hr) (h_rightY hr) (h_aoa hr)"
  by (simp_all add: js_beginTick_def Let_def)

lemma js_timestep_keeps:
  "js_landed (js_timestep rnd delta accel t) = js_landed t"
  "js_position (js_timestep rnd delta accel t) = js_position t"
  "js_throttle (js_timestep rnd delta accel t) = js_throttle t"
  "js_stall (js_timestep rnd delta accel t) = js_stall t"
  by (simp_all add: js_timestep_def Let_def)

lemma js_timestep_vy:
  "js_landed t \<Longrightarrow> \<not> js_lt (j_y (js_velocity (js_timestep rnd delta accel t))) (Finite 0)"
  by (simp add: js_timestep_def Let_def)

lemma js_roundToZero_vy:
  "\<not> js_lt (j_y v) (Finite 0) \<Longrightarrow> \<not> js_lt (j_y (js_roundToZero eps v)) (Finite 0)"
  by (simp add: js_roundToZero_def)

lemma js_applyVelocity_landed:
  "js_landed (js_applyVelocity rnd c delta t) =
     (js_landed t \<and> \<not> js_gt (j_y (js_position (js_applyVelocity rnd c delta t)))
                            (Finite (PLANE_DISTANCE_TO_GROUND c)))"
  by (simp add: js_applyVelocity_def Let_def)

lemma js_applyVelocity_keeps:
  "js_stall (js_applyVelocity rnd c delta t) = js_stall t"
  "js_velocity (js_applyVelocity rnd c delta t) =
     js_roundToZero (if js_gt (js_throttle t) (Finite 0) then rnd 0.01 else rnd 0.1) (js_velocity t)"
  by (simp_all add: js_applyVelocity_def Let_def)

lemma js_integrate_landed:
  "js_landed (js_integrate rnd c delta accel t) =
     (js_landed t \<and> \<not> js_gt (j_y (js_position (js_integrate rnd c delta accel t)))
                            (Finite (PLANE_DISTANCE_TO_GROUND c)))"
  using js_applyVelocity_landed[of rnd c delta "js_timestep rnd delta accel t"]
  by (simp add: js_integrate_def js_timestep_keeps)

lemma js_integrate_vy:
  "js_landed t \<Longrightarrow> \<not> js_lt (j_y (js_velocity (js_integrate rnd c delta accel t))) (Finite 0)"
  by (simp add: js_integrate_def js_applyVelocity_keeps js_roundToZero_vy js_timestep_vy)

lemma js_integrate_stall: "js_stall (js_integrate rnd c delta accel t) = js_stall t"
  by (simp add: js_integrate_def js_applyVelocity_keeps js_timestep_keeps)

lemma js_step_landed:
  "js_landed (js_step m level c delta hr t) =
     (let y' = j_y (js_position (js_integrate (ar_round m) c delta (h_accel hr)
                                   (js_beginTick m hr t)));
          T = Finite (PLANE_DISTANCE_TO_GROUND c)
      in js_lt y' T \<or> (\<not> js_gt y' T \<and> js_landed t))"
  using js_integrate_landed[of "ar_round m" c delta "h_accel hr" "js_beginTick m hr t"]
  by (auto simp add: js_step_def js_wrapAround_def js_avoidGroundCrashes_def Let_def
      js_beginTick_keeps)

lemma js_step_altitude:
  "j_y (js_position (js_step m level c delta hr t)) =
     (let y' = j_y (js_position (js_integrate (ar_round m) c delta (h_accel hr)
                                   (js_beginTick m hr t)));
          T = Finite (PLANE_DISTANCE_TO_GROUND c)
      in if js_lt y' T then T else y')"
  by (simp add: js_step_def js_wrapAround_def js_avoidGroundCrashes_def Let_def
      js_wrapPosition_y)

lemma js_step_velocity:
  "js_velocity (js_step m level c delta hr t) =
     (let a = js_integrate (ar_round m) c delta (h_accel hr) (js_beginTick m hr t)
      in if js_lt (j_y (js_position a)) (Finite (PLANE_DISTANCE_TO_GROUND c))
         then (js_velocity a)\<lparr>j_y := Finite 0\<rparr> else js_velocity a)"
  by (simp add: js_step_def js_wrapAround_def js_avoidGroundCrashes_def Let_def)

lemma js_step_stall:
  "js_stall (js_step m level c delta hr t) =
     (let a = js_integrate (ar_round m) c delta (h_accel hr) (js_beginTick m hr t)
      in if js_lt (j_y (js_position a)) (Finite (PLANE_DISTANCE_TO_GROUND c))
         then Finite (- 1)
         else js_stallIndex m (js_length (ar_round m) (js_velocity t))
                (js_airDensity m (j_y (js_position t))) (h_forwardY hr) (h_rightY hr) (h_aoa hr))"
  by (simp add: js_step_def js_wrapAround_def js_avoidGroundCrashes_def Let_def
      js_integrate_stall js_beginTick_keeps)

subsection \<open>The examples, computed\<close>

lemma js_example_defs:
  "PLANE_DISTANCE_TO_GROUND exampleDefs = 2" "TERRAIN_SCALE exampleDefs = 100"
  "TERRAIN_MODEL_SIZE exampleDefs = 100"
  by (simp_all add: exampleDefs_def)

lemma js_overflow_small: "- 1000000000 < r \<Longrightarrow> r < 1000000000 \<Longrightarrow> js_overflow r = Finite r"
  unfolding js_overflow_def by (simp add: not_le)

lemma js_overflow_big: "2 ^ 1024 \<le> r \<Longrightarrow> js_overflow r = Infinity"
  by (simp add: js_overflow_def)

lemma js_overflow_pi: "js_overflow pi = Finite pi" "js_overflow (7 * pi) = Finite (7 * pi)"
  "js_overflow (pi / 8) = Finite (pi / 8)" "js_overflow (7 * pi / 8) = Finite (7 * pi / 8)"
proof -
  have "- 1000000000 < pi" "pi < 1000000000" "- 1000000000 < 7 * pi" "7 * pi < 1000000000"
    "- 1000000000 < pi / 8" "pi / 8 < 1000000000"
    "- 1000000000 < 7 * pi / 8" "7 * pi / 8 < 1000000000"
    using pi_gt_zero pi_less_4 by linarith+
  then show "js_overflow pi = Finite pi" "js_overflow (7 * pi) = Finite (7 * pi)"
    "js_overflow (pi / 8) = Finite (pi / 8)" "js_overflow (7 * pi / 8) = Finite (7 * pi / 8)"
    by (simp_all only: js_overflow_small)
qed

lemma js_pi_order: "\<not> pi / 2 < pi / 8" "\<not> 7 * pi / 8 < pi / 2"
  using pi_gt_zero by simp_all

lemma js_arith_sel:
  "ar_round overflowArith = js_overflow"
  "ar_sin overflowArith = (\<lambda>a. Finite (sin a))"
  "ar_exp overflowArith = (\<lambda>a. if a < - 746 then Finite 0 else if 710 < a then Infinity
                                else Finite (exp a))"
  by (simp_all add: overflowArith_def)

lemma js_half_size: "js_terrainHalfSize js_overflow exampleDefs = Finite 25000"
  by (simp add: js_terrainHalfSize_def js_overflow_small js_example_defs)

lemma js_airDensity_low:
  assumes "0 \<le> y" "y \<le> 1000"
  shows "js_airDensity overflowArith (Finite y) = Finite (GROUND_AIR_DENSITY * exp (- (y / 8000)))"
proof -
  let ?e = "exp (- (y / 8000))"
  have e: "0 < ?e" "?e \<le> 1"
    using assms by simp_all
  have G: "0 < GROUND_AIR_DENSITY" "GROUND_AIR_DENSITY \<le> 2"
    by (simp_all add: GROUND_AIR_DENSITY_def)
  have p: "0 < GROUND_AIR_DENSITY * ?e"
    using e G by (intro mult_pos_pos)
  have q: "GROUND_AIR_DENSITY * ?e \<le> GROUND_AIR_DENSITY * 1"
    using e G by (intro mult_left_mono) simp_all
  have m: "js_overflow (GROUND_AIR_DENSITY * ?e) = Finite (GROUND_AIR_DENSITY * ?e)"
    by (rule js_overflow_small) (use p q G in linarith)+
  have g: "js_overflow GROUND_AIR_DENSITY = Finite GROUND_AIR_DENSITY"
    by (rule js_overflow_small) (use G in linarith)+
  have d: "js_div js_overflow (js_neg (Finite y)) (Finite 8000) = Finite (- (y / 8000))"
    using assms by (simp add: js_overflow_small)
  have x: "Math_exp (ar_exp overflowArith) (Finite (- (y / 8000))) = Finite ?e"
    using assms by (simp add: js_arith_sel)
  show ?thesis
    unfolding js_airDensity_def d x js_arith_sel(1) g by (simp add: m)
qed

lemma js_length_zero:
  "js_length js_overflow (js_vec (Finite 0) (Finite 0) (Finite 0)) = Finite 0"
  by (simp add: js_length_def js_vec_def js_overflow_small)

lemma js_stall_still:
  "js_stallIndex overflowArith (Finite 0) (Finite a) (Finite 0) (Finite 0) (Finite (pi / 2))
     = Finite 1"
  by (simp add: js_stallIndex_def js_stallArgument_def Let_def js_arith_sel js_overflow_small
      js_overflow_pi js_pi_order js_gt_def js_sub_def js_clamp_def GROUND_AIR_DENSITY_def)

lemma js_stall_overflow:
  "js_stallArgument overflowArith Infinity (Finite 0) (Finite 0) (Finite 0) (Finite (pi / 2)) = NaN"
  "js_stallIndex overflowArith Infinity (Finite 0) (Finite 0) (Finite 0) (Finite (pi / 2)) = NaN"
  by (simp_all add: js_stallIndex_def js_stallArgument_def Let_def js_arith_sel js_overflow_small
      js_overflow_pi js_pi_order js_gt_def js_sub_def js_clamp_def GROUND_AIR_DENSITY_def)

lemmas js_eval =
  js_step_def js_integrate_def js_timestep_def js_applyVelocity_def js_avoidGroundCrashes_def
  js_wrapAround_def js_wrapPosition_def js_addScaledVector_def js_beginTick_def
  js_roundToZero_def js_isZero_def js_gt_def js_still_def js_vec_def Let_def
  js_keepHeading_def js_overflow_small js_arith_sel js_example_defs js_half_size

subsection \<open>The landed flag and the altitude\<close>


lemma js_parked_tick:
  "j_y (js_position (js_integrate js_overflow exampleDefs (Finite 1) (h_accel js_falling)
                       (js_beginTick overflowArith js_falling js_parked))) = Finite 2"
  "js_landed (js_step overflowArith js_keepHeading exampleDefs (Finite 1) js_falling js_parked)"
  "j_y (js_position (js_step overflowArith js_keepHeading exampleDefs (Finite 1) js_falling
                       js_parked)) = Finite 2"
  by (simp_all add: js_eval js_parked_def js_falling_def)

lemma js_aloft_tick:
  "j_y (js_position (js_integrate js_overflow exampleDefs (Finite 1) (h_accel js_falling)
                       (js_beginTick overflowArith js_falling js_aloft))) = Finite 990.2"
  "\<not> js_landed (js_step overflowArith js_keepHeading exampleDefs (Finite 1) js_falling js_aloft)"
  "j_y (js_position (js_step overflowArith js_keepHeading exampleDefs (Finite 1) js_falling
                       js_aloft)) = Finite 990.2"
  by (simp_all add: js_eval js_aloft_def js_falling_def)

lemma js_hovering_short_tick:
  "j_y (js_position (js_integrate js_overflow exampleDefs (Finite (1 / 1000)) (h_accel js_falling)
                       (js_beginTick overflowArith js_falling js_hovering))) = Finite 2"
  "\<not> js_landed (js_step overflowArith js_keepHeading exampleDefs (Finite (1 / 1000)) js_falling
                   js_hovering)"
  "j_y (js_position (js_step overflowArith js_keepHeading exampleDefs (Finite (1 / 1000))
                       js_falling js_hovering)) = Finite 2"
  by (simp_all add: js_eval js_hovering_def js_falling_def)


subsection \<open>The vertical velocity of a landed aircraft\<close>

text \<open>
  Claim C3, as amended. If the position update of the tick produces an altitude \<open>y'\<close> strictly
  below the ground clearance \<open>T\<close>, the tick ends landed with \<^verbatim>\<open>velocity.y\<close> exactly zero. If the
  tick ends landed without that, then \<^verbatim>\<open>landed\<close> was true when the tick began, \<open>y'\<close> is not
  above \<open>T\<close>, the velocity is the one that the position update used, and \<^verbatim>\<open>velocity.y\<close> is
  not negative: it is zero, positive or \<^verbatim>\<open>NaN\<close>. It need not be zero; line 179 removes a
  vertical velocity that points down and keeps one that points up, and the aircraft stays
  landed whenever the altitude does not rise, as in a tick of length zero.
\<close>

theorem js_landed_vertical:
  "let a = js_integrate (ar_round m) c delta (h_accel hr) (js_beginTick m hr t);
       y' = j_y (js_position a);
       T = Finite (PLANE_DISTANCE_TO_GROUND c);
       post = js_step m level c delta hr t
   in (js_lt y' T \<longrightarrow> js_landed post \<and> j_y (js_velocity post) = Finite 0)
    \<and> (js_landed post \<and> \<not> js_lt y' T
         \<longrightarrow> js_landed t \<and> \<not> js_gt y' T
             \<and> \<not> js_lt (j_y (js_velocity post)) (Finite 0)
             \<and> js_velocity post = js_velocity a)"
proof -
  have v: "js_landed t \<Longrightarrow>
      \<not> js_lt (j_y (js_velocity (js_integrate (ar_round m) c delta (h_accel hr)
                                   (js_beginTick m hr t)))) (Finite 0)"
    by (simp add: js_integrate_vy js_beginTick_keeps)
  show ?thesis
    using v by (auto simp add: Let_def js_step_landed js_step_velocity)
qed

lemma js_hovering_tick:
  "j_y (js_position (js_integrate js_overflow exampleDefs (Finite 1) (h_accel js_falling)
                       (js_beginTick overflowArith js_falling js_hovering))) = Finite (- 7.8)"
  "js_landed (js_step overflowArith js_keepHeading exampleDefs (Finite 1) js_falling js_hovering)"
  "js_velocity (js_step overflowArith js_keepHeading exampleDefs (Finite 1) js_falling js_hovering)
     = js_vec (Finite 0) (Finite 0) (Finite 0)"
  by (simp_all add: js_eval js_hovering_def js_falling_def)

lemma js_rolling_tick:
  "j_y (js_position (js_integrate js_overflow exampleDefs (Finite 0) (h_accel js_climbing)
                       (js_beginTick overflowArith js_climbing js_rolling))) = Finite 2"
  "js_velocity (js_integrate js_overflow exampleDefs (Finite 0) (h_accel js_climbing)
                  (js_beginTick overflowArith js_climbing js_rolling))
     = js_vec (Finite 0) (Finite (159600 / 160801)) (Finite (788005 / 160801))"
  "js_landed (js_step overflowArith js_keepHeading exampleDefs (Finite 0) js_climbing js_rolling)"
  "js_velocity (js_step overflowArith js_keepHeading exampleDefs (Finite 0) js_climbing js_rolling)
     = js_vec (Finite 0) (Finite (159600 / 160801)) (Finite (788005 / 160801))"
  by (simp_all add: js_eval js_rolling_def js_climbing_def)

text \<open>
  Hovering at the ground clearance, the aircraft falls for one second to the altitude \<open>-7.8\<close>,
  is clamped and ends landed with vertical velocity zero. Rolling nose up, it ends a tick of
  length zero landed with the vertical velocity \<open>159600/160801\<close>.
\<close>

theorem js_landed_vertical_witness:
  "js_lt (j_y (js_position (js_integrate (ar_round overflowArith) exampleDefs (Finite 1)
                              (h_accel js_falling)
                              (js_beginTick overflowArith js_falling js_hovering))))
         (Finite (PLANE_DISTANCE_TO_GROUND exampleDefs))
   \<and> js_landed (js_step overflowArith js_keepHeading exampleDefs (Finite 1) js_falling js_hovering)
   \<and> j_y (js_velocity (js_step overflowArith js_keepHeading exampleDefs (Finite 1) js_falling
                          js_hovering)) = Finite 0
   \<and> js_landed js_rolling
   \<and> js_landed (js_step overflowArith js_keepHeading exampleDefs (Finite 0) js_climbing js_rolling)
   \<and> \<not> js_lt (j_y (js_position (js_integrate (ar_round overflowArith) exampleDefs (Finite 0)
                              (h_accel js_climbing)
                              (js_beginTick overflowArith js_climbing js_rolling))))
         (Finite (PLANE_DISTANCE_TO_GROUND exampleDefs))
   \<and> j_y (js_velocity (js_step overflowArith js_keepHeading exampleDefs (Finite 0) js_climbing
                          js_rolling)) = Finite (159600 / 160801)"
  using js_landed_vertical[of overflowArith exampleDefs "Finite 1" js_falling js_hovering
      js_keepHeading]
    js_landed_vertical[of overflowArith exampleDefs "Finite 0" js_climbing js_rolling
      js_keepHeading]
  by (simp add: Let_def js_arith_sel js_hovering_tick js_rolling_tick js_example_defs js_gt_def)

lemma rolling_forward:
  "forward (tickBasis exampleDefs rollingNoseUp) = vec 0 (31920 / 160801) (157601 / 160801)"
  by (simp add: tickBasis_def exampleDefs_def rollingNoseUp_def parkedNoseUp_def atRest_def
      v3_applyQuaternion_def Let_def)

lemma rolling_speed: "v3_length (velocity rollingNoseUp) = 5"
  by (simp add: rollingNoseUp_def length_z_axis)

lemma rolling_sel:
  "landed rollingNoseUp" "throttle rollingNoseUp = 0" "roll rollingNoseUp = 0"
  "pitch rollingNoseUp = 0" "yaw rollingNoseUp = 0"
  "position (obj rollingNoseUp) = vec 0 2 0"
  by (simp_all add: rollingNoseUp_def parkedNoseUp_def atRest_def)

lemma example_tolerance: "EPSILON exampleDefs = 1 / 10000"
  by (simp add: exampleDefs_def)

lemma accelerate_rolling:
  "velocity (accelerate exampleDefs 0 rollingNoseUp) = vec 0 (159600 / 160801) (788005 / 160801)"
  by (simp add: accelerate_def Let_def timestep_def v3_addScaledVector_def
      magicVelocityRotation_def rotationControls_frame rolling_speed rolling_sel rolling_forward
      isZero_def example_tolerance v3_multiplyScalar_def v3_setY_def)

text \<open>
  Claim C3 as stated fails, already in exact arithmetic. The aircraft is landed, rolls at
  5 m/s along \<open>z\<close> and has its nose about 11 degrees up. On the ground the velocity is turned
  into the nose direction (line 138), so it points up; a tick of length zero adds no
  acceleration and does not move the aircraft, which ends the tick at the ground clearance,
  landed, with a vertical velocity of \<open>159600/160801\<close>, about 0.99 m/s.
\<close>

theorem landed_vertical_counterexample:
  "landed rollingNoseUp
   \<and> landed (step exampleDefs 0 rollingNoseUp)
   \<and> v_y (velocity (step exampleDefs 0 rollingNoseUp)) = 159600 / 160801"
proof -
  let ?a = "accelerate exampleDefs 0 rollingNoseUp"
  have v: "velocity ?a = vec 0 (159600 / 160801) (788005 / 160801)" by (rule accelerate_rolling)
  have p: "position (obj ?a) = vec 0 2 0" "landed ?a" "throttle ?a = 0"
    by (simp_all add: accelerate_keeps rolling_sel)
  have ig: "integrate exampleDefs 0 rollingNoseUp =
      ?a\<lparr>velocity := vec 0 (159600 / 160801) (788005 / 160801),
         obj := (obj ?a)\<lparr>position := vec 0 2 0\<rparr>\<rparr>"
    by (simp add: integrate_def applyVelocity_def Let_def v p roundToZero_def isZero_def
        v3_addScaledVector_def example_eps)
  have y: "v_y (position (obj (integrate exampleDefs 0 rollingNoseUp))) = 2"
    by (simp add: ig)
  have l: "landed (step exampleDefs 0 rollingNoseUp)"
    by (simp add: step_landed y example_eps rolling_sel)
  have "velocity (step exampleDefs 0 rollingNoseUp) = vec 0 (159600 / 160801) (788005 / 160801)"
    by (simp add: step_def wrapAround_frame avoidGroundCrashes_def y example_eps) (simp add: ig)
  with l show ?thesis by (simp add: rolling_sel)
qed

subsection \<open>The range of the stall index\<close>


lemma js_aloft_stall:
  "js_stall (js_step overflowArith js_keepHeading exampleDefs (Finite 1) js_falling js_aloft)
     = Finite 1"
  by (simp add: js_step_stall Let_def js_arith_sel js_aloft_tick js_example_defs)
     (simp add: js_aloft_def js_falling_def js_still_def js_length_zero js_airDensity_low
        js_stall_still)

lemma js_hovering_stall:
  "js_stall (js_step overflowArith js_keepHeading exampleDefs (Finite 1) js_falling js_hovering)
     = Finite (- 1)"
  by (simp add: js_step_stall Let_def js_arith_sel js_hovering_tick js_example_defs)

lemma js_runaway_tick:
  "js_position (js_integrate js_overflow exampleDefs (Finite 1) (h_accel js_undefined)
                  (js_beginTick overflowArith js_undefined js_runaway)) = js_vec NaN NaN NaN"
  "js_position (js_avoidGroundCrashes js_keepHeading exampleDefs
                  (js_integrate js_overflow exampleDefs (Finite 1) (h_accel js_undefined)
                     (js_beginTick overflowArith js_undefined js_runaway))) = js_vec NaN NaN NaN"
  "js_position (js_step overflowArith js_keepHeading exampleDefs (Finite 1) js_undefined
                  js_runaway) = js_vec NaN NaN NaN"
  by (simp_all add: js_eval js_runaway_def js_undefined_def)

lemma js_runaway_head:
  "js_length js_overflow (js_velocity js_runaway) = Infinity"
  "js_airDensity overflowArith (j_y (js_position js_runaway)) = Finite 0"
  by (simp_all add: js_runaway_def js_still_def js_vec_def js_length_def js_airDensity_def
      js_arith_sel js_overflow_small js_overflow_big GROUND_AIR_DENSITY_def)

lemma js_runaway_stall:
  "js_stall (js_step overflowArith js_keepHeading exampleDefs (Finite 1) js_undefined js_runaway)
     = NaN"
  by (simp add: js_step_stall Let_def js_arith_sel js_runaway_tick js_runaway_head)
     (simp add: js_undefined_def js_stall_overflow js_vec_def)



subsection \<open>The world wrap\<close>


lemma js_outside_tick:
  "js_position (js_avoidGroundCrashes js_keepHeading exampleDefs
                  (js_integrate js_overflow exampleDefs (Finite 1) (h_accel js_falling)
                     (js_beginTick overflowArith js_falling js_parkedOutside)))
     = js_vec (Finite 30000) (Finite 2) (Finite (- 26000))"
  "js_position (js_step overflowArith js_keepHeading exampleDefs (Finite 1) js_falling
                  js_parkedOutside) = js_vec (Finite (- 25000)) (Finite 2) (Finite 25000)"
  by (simp_all add: js_eval js_parkedOutside_def js_falling_def)



end
